theory Spec2Isabelle
  imports Complex_Main "HOL-Library.Char_ord" "HOL-Library.List_Lexorder"
begin

section \<open>Data model of the energy-risk dashboard\<close>

text \<open>
  The dashboard (\<^verbatim>\<open>dashboardBetav1.py\<close>) keeps a pandas data frame, a fitted Cox model and
  a handful of Tk variables and widgets in the closure of \<^verbatim>\<open>run_dashboard\<close>. Here the data
  frame is an ordered list of named columns, floats are rationals (every comparison the
  code makes is against a constant or another cell), and the column names, which are
  Ukrainian in the source, are transliterated so that the theory stays ASCII; only their
  being distinct matters.
\<close>

datatype cell = IntV int | FloatV rat | BoolV bool | StrV string

datatype dtype = Int64 | Float64 | Boolean | Object | Category

record column =
  col_dtype :: dtype
  col_cells :: "cell list"

record dataframe =
  nrows :: nat
  cols :: "(string \<times> column) list"

datatype error =
    ValueError "string list" "string list"
  | KeyError string
  | ConversionError cell
  | IOError string
  | FitError string
  | OverflowError
  | TypeError
  | LabelsError
  | IndexError

definition DURATION_COL :: string where
  "DURATION_COL = ''tryvalist''"

definition EVENT_COL :: string where
  "EVENT_COL = ''podiia''"

definition LOAD_COL :: string where
  "LOAD_COL = ''navantazhennia_mvt''"

definition POWER_COL :: string where
  "POWER_COL = ''potuzhnist_mvt''"

definition UTIL_COL :: string where
  "UTIL_COL = ''zavantazhenist''"

definition FEATURE_COLUMNS :: "string list" where
  "FEATURE_COLUMNS =
     [LOAD_COL, POWER_COL, UTIL_COL, ''temperatura_s'', ''viter_m_s'', ''sviato'', ''vik_rokiv'']"

definition ID_COL :: string where
  "ID_COL = ''id''"

definition NAME_COL :: string where
  "NAME_COL = ''nazva''"

definition TYPE_COL :: string where
  "TYPE_COL = ''typ''"

definition GROUP_COL :: string where
  "GROUP_COL = ''_group''"

definition columns :: "dataframe \<Rightarrow> string list" where
  "columns df = map fst (cols df)"

definition len_df :: "dataframe \<Rightarrow> nat" where
  "len_df df = nrows df"

text \<open>\<^verbatim>\<open>df[name]\<close>: the column, or \<^verbatim>\<open>KeyError\<close>.\<close>

definition get_column :: "dataframe \<Rightarrow> string \<Rightarrow> error + column" where
  "get_column df name =
     (case map_of (cols df) name of None \<Rightarrow> Inl (KeyError name) | Some c \<Rightarrow> Inr c)"

text \<open>\<^verbatim>\<open>df[name] = c\<close>: an existing column is replaced where it stands, a new one is
  appended after the others.\<close>

fun assign :: "(string \<times> column) list \<Rightarrow> string \<Rightarrow> column \<Rightarrow> (string \<times> column) list" where
  "assign [] name c = [(name, c)]"
| "assign ((k, v) # rest) name c =
     (if k = name then (k, c) # rest else (k, v) # assign rest name c)"

definition set_column :: "dataframe \<Rightarrow> string \<Rightarrow> column \<Rightarrow> dataframe" where
  "set_column df name c = df\<lparr>cols := assign (cols df) name c\<rparr>"

section \<open>External libraries\<close>

text \<open>
  The statistics and the conversions of Python, pandas and lifelines are not code of this
  repository. They are parameters of the model: a fitted Cox model is the record of its
  four queries, and \<open>lib\<close> collects the library functions the code calls:
  \<^item> \<open>cox_fit\<close>: \<^verbatim>\<open>CoxPHFitter().fit\<close>;
  \<^item> \<open>py_int_of_str\<close>, \<open>py_float_of_str\<close>: \<^verbatim>\<open>int(s)\<close> and \<^verbatim>\<open>float(s)\<close> on a string;
  \<^item> \<open>py_str\<close>: \<^verbatim>\<open>str(x)\<close>; \<open>py_strip\<close>: \<^verbatim>\<open>s.strip()\<close>;
  \<^item> \<open>sort_values\<close>: \<^verbatim>\<open>Series.sort_values(ascending=b)\<close> on a series given as its
    (label, value) pairs; the order it gives to equal values is the library's;
  \<^item> \<open>inner_edges\<close>: the quantiles at 1/3 and 2/3 of a list of numbers, as pandas
    interpolates them in floating point.
\<close>

record cox_model =
  predict_survival_function :: "cell list \<Rightarrow> (rat \<times> rat) list"
  predict_cumulative_hazard :: "cell list \<Rightarrow> (rat \<times> rat) list"
  predict_partial_hazard :: "cell list \<Rightarrow> rat"
  summary :: "(string \<times> rat \<times> rat \<times> rat) list"

record lib =
  cox_fit :: "dataframe \<Rightarrow> error + cox_model"
  py_int_of_str :: "string \<Rightarrow> int option"
  py_float_of_str :: "string \<Rightarrow> rat option"
  py_str :: "cell \<Rightarrow> string"
  py_strip :: "string \<Rightarrow> string"
  sort_values :: "(string \<times> rat) list \<Rightarrow> bool \<Rightarrow> (string \<times> rat) list"
  inner_edges :: "rat list \<Rightarrow> rat \<times> rat"

text \<open>The draws of \<^verbatim>\<open>np.random.default_rng()\<close>, by column and position.\<close>

record rng =
  draw_duration :: "nat \<Rightarrow> int"
  draw_event :: "nat \<Rightarrow> int"
  draw_load :: "nat \<Rightarrow> rat"
  draw_power :: "nat \<Rightarrow> rat"
  draw_util :: "nat \<Rightarrow> rat"
  draw_temp :: "nat \<Rightarrow> rat"
  draw_wind :: "nat \<Rightarrow> rat"
  draw_holiday :: "nat \<Rightarrow> int"
  draw_age :: "nat \<Rightarrow> int"

text \<open>Running a fallible step over a list; the first failure is the result.\<close>

fun traverse :: "('a \<Rightarrow> error + 'b) \<Rightarrow> 'a list \<Rightarrow> error + 'b list" where
  "traverse f [] = Inr []"
| "traverse f (x # xs) =
     (case f x of
        Inl e \<Rightarrow> Inl e
      | Inr y \<Rightarrow> (case traverse f xs of Inl e \<Rightarrow> Inl e | Inr ys \<Rightarrow> Inr (y # ys)))"

text \<open>
  \<^verbatim>\<open>astype(int)\<close> on a cell of an object column: Python's \<^verbatim>\<open>int(x)\<close>, stored as a 64-bit
  integer, so a value outside the 64-bit range is an \<^verbatim>\<open>OverflowError\<close>.
\<close>

definition int64_of :: "int \<Rightarrow> error + int" where
  "int64_of i = (if - (2 ^ 63) \<le> i \<and> i < 2 ^ 63 then Inr i else Inl OverflowError)"

definition py_int :: "lib \<Rightarrow> cell \<Rightarrow> error + int" where
  "py_int l x =
     (case x of
        IntV i \<Rightarrow> int64_of i
      | BoolV b \<Rightarrow> Inr (if b then 1 else 0)
      | FloatV r \<Rightarrow> int64_of (if 0 \<le> r then \<lfloor>r\<rfloor> else \<lceil>r\<rceil>)
      | StrV s \<Rightarrow> (case py_int_of_str l s of
                    None \<Rightarrow> Inl (ConversionError x)
                  | Some i \<Rightarrow> int64_of i))"

text \<open>\<^verbatim>\<open>float(x)\<close> on a cell.\<close>

definition py_float :: "lib \<Rightarrow> cell \<Rightarrow> error + rat" where
  "py_float l x =
     (case x of
        IntV i \<Rightarrow> Inr (of_int i)
      | BoolV b \<Rightarrow> Inr (if b then 1 else 0)
      | FloatV r \<Rightarrow> Inr r
      | StrV s \<Rightarrow> (case py_float_of_str l s of
                    None \<Rightarrow> Inl (ConversionError x)
                  | Some r \<Rightarrow> Inr r))"

text \<open>The number in a cell of a numeric column; a string is none.\<close>

definition numeric_cell :: "cell \<Rightarrow> error + rat" where
  "numeric_cell x =
     (case x of
        IntV i \<Rightarrow> Inr (of_int i)
      | BoolV b \<Rightarrow> Inr (if b then 1 else 0)
      | FloatV r \<Rightarrow> Inr r
      | StrV s \<Rightarrow> Inl TypeError)"

definition str_cell :: "cell \<Rightarrow> error + string" where
  "str_cell x = (case x of StrV t \<Rightarrow> Inr t | _ \<Rightarrow> Inl TypeError)"

definition and_then :: "error + 'a \<Rightarrow> ('a \<Rightarrow> error + 'b) \<Rightarrow> error + 'b" where
  "and_then r f = (case r of Inl e \<Rightarrow> Inl e | Inr x \<Rightarrow> f x)"

text \<open>\<^verbatim>\<open>df.iloc[idx][name]\<close> on one column.\<close>

definition iloc_cell :: "column \<Rightarrow> nat \<Rightarrow> error + cell" where
  "iloc_cell c idx =
     (if idx < length (col_cells c) then Inr (col_cells c ! idx) else Inl IndexError)"

text \<open>\<^verbatim>\<open>df[names]\<close>: the listed columns in the listed order, \<^verbatim>\<open>KeyError\<close> on a missing one.\<close>

definition select_columns :: "dataframe \<Rightarrow> string list \<Rightarrow> error + dataframe" where
  "select_columns df names =
     (case traverse (\<lambda>n. case get_column df n of Inl e \<Rightarrow> Inl e | Inr c \<Rightarrow> Inr (n, c)) names of
        Inl e \<Rightarrow> Inl e
      | Inr cs \<Rightarrow> Inr (df\<lparr>cols := cs\<rparr>))"

section \<open>Dataset provider\<close>

text \<open>
  \<^verbatim>\<open>
  def ensure_columns(df, required_cols):
      missing = [c for c in required_cols if c not in df.columns]
      if missing:
          raise ValueError(f"... {missing}\n... {df.columns.tolist()}")
  \<close>
  The error carries the two lists the message prints.
\<close>

definition ensure_columns :: "dataframe \<Rightarrow> string list \<Rightarrow> error + unit" where
  "ensure_columns df required_cols =
     (let missing = filter (\<lambda>c. c \<notin> set (columns df)) required_cols
      in if missing \<noteq> [] then Inl (ValueError missing (columns df)) else Inr ())"

text \<open>
  \<^verbatim>\<open>
  def train_cox_model(df):
      # lifelines expects EVENT as 0/1 or True/False
      if df[EVENT_COL].dtype == object:
          df[EVENT_COL] = df[EVENT_COL].astype(int)
      cph = CoxPHFitter()
      cph.fit(df[[DURATION_COL, EVENT_COL] + FEATURE_COLUMNS], ...)
      return cph
  \<close>
  \<open>coerce_event\<close> is the \<^verbatim>\<open>if\<close>; every caller passes \<^verbatim>\<open>df.copy()\<close>, so the caller's
  frame is not the one assigned to.
\<close>

definition coerce_event :: "lib \<Rightarrow> dataframe \<Rightarrow> error + dataframe" where
  "coerce_event l df =
     (case get_column df EVENT_COL of
        Inl e \<Rightarrow> Inl e
      | Inr c \<Rightarrow>
          if col_dtype c = Object
          then (case traverse (py_int l) (col_cells c) of
                  Inl e \<Rightarrow> Inl e
                | Inr is \<Rightarrow>
                    Inr (set_column df EVENT_COL \<lparr>col_dtype = Int64, col_cells = map IntV is\<rparr>))
          else Inr df)"

definition train_cox_model :: "lib \<Rightarrow> dataframe \<Rightarrow> error + cox_model" where
  "train_cox_model l df =
     (case coerce_event l df of
        Inl e \<Rightarrow> Inl e
      | Inr df' \<Rightarrow>
          (case select_columns df' ([DURATION_COL, EVENT_COL] @ FEATURE_COLUMNS) of
             Inl e \<Rightarrow> Inl e
           | Inr fit_df \<Rightarrow> cox_fit l fit_df))"

text \<open>
  \<^verbatim>\<open>
  def infer_type_by_power(p):
      if p > 6000: return "Generator"
      if p > 5200: return "Substation"
      return "Line"
  \<close>
  and the synthetic frame: the nine drawn columns with \<^verbatim>\<open>id\<close> first, then the name and
  the type.
\<close>

definition infer_type_by_power :: "rat \<Rightarrow> string" where
  "infer_type_by_power p =
     (if p > 6000 then ''Generator'' else if p > 5200 then ''Substation'' else ''Line'')"

definition generate_random_data :: "lib \<Rightarrow> rng \<Rightarrow> nat \<Rightarrow> dataframe" where
  "generate_random_data l g n =
     (let ids = map (\<lambda>i. int i + 1) [0..<n];
          power = map (draw_power g) [0..<n]
      in \<lparr>nrows = n,
          cols =
            [(ID_COL, \<lparr>col_dtype = Int64, col_cells = map IntV ids\<rparr>),
             (DURATION_COL, \<lparr>col_dtype = Int64, col_cells = map (\<lambda>i. IntV (draw_duration g i)) [0..<n]\<rparr>),
             (EVENT_COL, \<lparr>col_dtype = Int64, col_cells = map (\<lambda>i. IntV (draw_event g i)) [0..<n]\<rparr>),
             (LOAD_COL, \<lparr>col_dtype = Float64, col_cells = map (\<lambda>i. FloatV (draw_load g i)) [0..<n]\<rparr>),
             (POWER_COL, \<lparr>col_dtype = Float64, col_cells = map FloatV power\<rparr>),
             (UTIL_COL, \<lparr>col_dtype = Float64, col_cells = map (\<lambda>i. FloatV (draw_util g i)) [0..<n]\<rparr>),
             (''temperatura_s'', \<lparr>col_dtype = Float64, col_cells = map (\<lambda>i. FloatV (draw_temp g i)) [0..<n]\<rparr>),
             (''viter_m_s'', \<lparr>col_dtype = Float64, col_cells = map (\<lambda>i. FloatV (draw_wind g i)) [0..<n]\<rparr>),
             (''sviato'', \<lparr>col_dtype = Int64, col_cells = map (\<lambda>i. IntV (draw_holiday g i)) [0..<n]\<rparr>),
             (''vik_rokiv'', \<lparr>col_dtype = Int64, col_cells = map (\<lambda>i. IntV (draw_age g i)) [0..<n]\<rparr>),
             (NAME_COL, \<lparr>col_dtype = Object,
                         col_cells = map (\<lambda>i. StrV (''Element-'' @ py_str l (IntV i))) ids\<rparr>),
             (TYPE_COL, \<lparr>col_dtype = Object,
                         col_cells = map (\<lambda>p. StrV (infer_type_by_power p)) power\<rparr>)]\<rparr>)"

text \<open>
  The start of \<^verbatim>\<open>run_dashboard\<close>, up to the window's creation. \<open>csv\<close> is what
  \<^verbatim>\<open>pd.read_csv\<close> gives: a frame, or the exception it raises.
  \<^verbatim>\<open>
  try:
      df = pd.read_csv("cox_energy_dataset.csv", encoding="utf-8-sig")
      ensure_columns(df, [DURATION_COL, EVENT_COL] + FEATURE_COLUMNS)
      cph = train_cox_model(df.copy())
      source_label = "cox_energy_dataset.csv"
  except Exception as e:
      df = generate_random_data(120)
      cph = train_cox_model(df.copy())
      source_label = "random data"
      messagebox.showwarning(..., f"...{e}")
  \<close>
\<close>

datatype dialog = ShowWarning error | ShowError int

record loaded =
  ld_df :: dataframe
  ld_cph :: cox_model
  ld_source_label :: string
  ld_dialogs :: "dialog list"

definition load_csv :: "lib \<Rightarrow> error + dataframe \<Rightarrow> error + loaded" where
  "load_csv l csv =
     (case csv of
        Inl e \<Rightarrow> Inl e
      | Inr df \<Rightarrow>
          (case ensure_columns df ([DURATION_COL, EVENT_COL] @ FEATURE_COLUMNS) of
             Inl e \<Rightarrow> Inl e
           | Inr _ \<Rightarrow>
               (case train_cox_model l df of
                  Inl e \<Rightarrow> Inl e
                | Inr m \<Rightarrow>
                    Inr \<lparr>ld_df = df, ld_cph = m,
                         ld_source_label = ''cox_energy_dataset.csv'', ld_dialogs = []\<rparr>)))"

definition load_or_synthesize :: "lib \<Rightarrow> rng \<Rightarrow> error + dataframe \<Rightarrow> error + loaded" where
  "load_or_synthesize l g csv =
     (case load_csv l csv of
        Inr ld \<Rightarrow> Inr ld
      | Inl e \<Rightarrow>
          (let df = generate_random_data l g 120
           in case train_cox_model l df of
                Inl e2 \<Rightarrow> Inl e2
              | Inr m \<Rightarrow>
                  Inr \<lparr>ld_df = df, ld_cph = m, ld_source_label = ''random data'',
                       ld_dialogs = [ShowWarning e]\<rparr>))"

text \<open>
  \<^verbatim>\<open>
  if "name" not in df.columns:
      df["name"] = df["id"].astype(str).apply(lambda x: f"Element-{x}")
  if "type" not in df.columns:
      def infer_type_row(r):
          try:
              p = float(r.get("power", 0))
              if p > 6000: return "Generator"
              if p > 5200: return "Substation"
          except Exception:
              pass
          return "Line"
      df["type"] = df.apply(infer_type_row, axis=1)
  \<close>
  The argument of \<open>infer_type_row\<close> is the row's power cell, \<open>None\<close> when the frame has
  no such column (\<^verbatim>\<open>r.get\<close> then gives 0).
\<close>

definition infer_type_row :: "lib \<Rightarrow> cell option \<Rightarrow> string" where
  "infer_type_row l r =
     (case py_float l (case r of None \<Rightarrow> IntV 0 | Some x \<Rightarrow> x) of
        Inl _ \<Rightarrow> ''Line''
      | Inr p \<Rightarrow>
          if p > 6000 then ''Generator'' else if p > 5200 then ''Substation'' else ''Line'')"

definition backfill_name :: "lib \<Rightarrow> dataframe \<Rightarrow> error + dataframe" where
  "backfill_name l df =
     (if NAME_COL \<notin> set (columns df)
      then (case get_column df ID_COL of
              Inl e \<Rightarrow> Inl e
            | Inr c \<Rightarrow>
                Inr (set_column df NAME_COL
                      \<lparr>col_dtype = Object,
                       col_cells = map (\<lambda>x. StrV (''Element-'' @ py_str l x)) (col_cells c)\<rparr>))
      else Inr df)"

definition backfill_type :: "lib \<Rightarrow> dataframe \<Rightarrow> dataframe" where
  "backfill_type l df =
     (if TYPE_COL \<notin> set (columns df)
      then set_column df TYPE_COL
             \<lparr>col_dtype = Object,
              col_cells =
                (case map_of (cols df) POWER_COL of
                   None \<Rightarrow> replicate (nrows df) (StrV (infer_type_row l None))
                 | Some c \<Rightarrow> map (\<lambda>x. StrV (infer_type_row l (Some x))) (col_cells c))\<rparr>
      else df)"

definition run_dashboard_data :: "lib \<Rightarrow> rng \<Rightarrow> error + dataframe \<Rightarrow> error + loaded" where
  "run_dashboard_data l g csv =
     (case load_or_synthesize l g csv of
        Inl e \<Rightarrow> Inl e
      | Inr ld \<Rightarrow>
          (case backfill_name l (ld_df ld) of
             Inl e \<Rightarrow> Inl e
           | Inr df1 \<Rightarrow> Inr (ld\<lparr>ld_df := backfill_type l df1\<rparr>)))"

section \<open>Derived views: the pure parts\<close>

text \<open>
  \<^verbatim>\<open>
  mask = yvals <= 0.5
  if mask.any():
      t50 = surv.index[np.argmax(mask)]  # first True
  \<close>
  \<^verbatim>\<open>np.argmax\<close> returns the first position of the largest entry; on a boolean array with
  \<open>False < True\<close>.
\<close>

fun argmax_from :: "bool list \<Rightarrow> nat \<Rightarrow> bool \<Rightarrow> nat \<Rightarrow> nat" where
  "argmax_from [] i best besti = besti"
| "argmax_from (b # bs) i best besti =
     (if best < b then argmax_from bs (Suc i) b i else argmax_from bs (Suc i) best besti)"

definition np_argmax :: "bool list \<Rightarrow> nat" where
  "np_argmax bs0 = (case bs0 of [] \<Rightarrow> 0 | b # bs \<Rightarrow> argmax_from bs 1 b 0)"

definition median_survival_time :: "(rat \<times> rat) list \<Rightarrow> rat option" where
  "median_survival_time surv =
     (let yvals = map snd surv;
          ymask = map (\<lambda>y. y \<le> 1 / 2) yvals
      in if list_ex (\<lambda>b. b) ymask then Some (map fst surv ! np_argmax ymask) else None)"

text \<open>
  \<^verbatim>\<open>
  if risk_score < 0.8:   ... low
  elif risk_score < 1.2: ... moderate
  else:                  ... high
  \<close>
\<close>

datatype risk = Low | Moderate | High

definition risk_bucket :: "rat \<Rightarrow> risk" where
  "risk_bucket risk_score =
     (if risk_score < 8 / 10 then Low
      else if risk_score < 12 / 10 then Moderate
      else High)"

text \<open>
  \<^verbatim>\<open>
  if max_load > min_load:
      pct = (curr_load - min_load) / (max_load - min_load) * 100
  else:
      pct = 0.0
  pct = max(0.0, min(100.0, pct))
  \<close>
\<close>

definition load_pct :: "rat \<Rightarrow> rat \<Rightarrow> rat \<Rightarrow> rat" where
  "load_pct curr_load min_load max_load =
     (let pct = (if max_load > min_load
                 then (curr_load - min_load) / (max_load - min_load) * 100
                 else 0)
      in max 0 (min 100 pct))"

text \<open>The minimum and maximum are those of the whole load column.\<close>

definition normalized_load :: "rat list \<Rightarrow> nat \<Rightarrow> rat" where
  "normalized_load loads idx = load_pct (loads ! idx) (Min (set loads)) (Max (set loads))"

section \<open>The session and its recompute\<close>

text \<open>
  The closure of \<^verbatim>\<open>run_dashboard\<close> as a record: the frame and the model, the Tk variables
  (\<open>obj_var\<close> is the text of the spin box, which reads as an integer or does not), and
  what each widget shows. A plot or a text widget holds the data drawn into it, not the
  formatted string; \<open>Placeholder\<close> is the message a view shows when it has nothing to draw.
  \<open>dialogs\<close> is the log of message boxes.
\<close>

datatype tkvar = IntText int | BadText string

datatype 'a drawn = Blank | Placeholder | Drawn 'a

datatype effect = Increases rat | Decreases rat | Negligible

datatype info_part =
  IdPart cell | NamePart cell | TypePart cell | LoadPart rat | PowerPart rat | UtilPart rat

record session =
  s_df :: dataframe
  s_cph :: cox_model
  source_label :: string
  groupable_vars :: "string list"
  obj_var :: tkvar
  spin_to :: nat
  id_var :: string
  id_values :: "string list"
  group_var :: string
  group_values :: "string list"
  dialogs :: "dialog list"
  surv_view :: "((rat \<times> rat) list \<times> rat option \<times> int) drawn"
  hr_view :: "(string \<times> rat \<times> bool) list drawn"
  ch_view :: "((rat \<times> rat) list \<times> int) drawn"
  groups_view :: "(string \<times> (string \<times> (cell \<times> cell) list) list) drawn"
  risk_label :: "risk option"
  load_bar :: rat
  load_val_label :: "(rat \<times> rat) option"
  record_summary :: "info_part list option"
  details_text :: "(string \<times> cell) list \<times> string option"
  report_text :: "((string \<times> effect \<times> rat \<times> rat \<times> rat) list \<times> string \<times> int \<times> risk option) drawn"

text \<open>
  \<^verbatim>\<open>
  try:
      idx = int(obj_var.get())
  except Exception:
      idx = 0
      obj_var.set(0)
  \<close>
\<close>

definition get_idx :: "session \<Rightarrow> int \<times> session" where
  "get_idx s =
     (case obj_var s of
        IntText i \<Rightarrow> (i, s)
      | BadText _ \<Rightarrow> (0, s\<lparr>obj_var := IntText 0\<rparr>))"

text \<open>\<^verbatim>\<open>row = df.iloc[[idx]][FEATURE_COLUMNS]\<close>: the feature cells of the row, in the order of
  \<open>FEATURE_COLUMNS\<close>.\<close>

definition feature_row :: "dataframe \<Rightarrow> nat \<Rightarrow> error + cell list" where
  "feature_row df idx =
     traverse (\<lambda>n. case get_column df n of Inl e \<Rightarrow> Inl e | Inr c \<Rightarrow> iloc_cell c idx)
       FEATURE_COLUMNS"

definition row_get :: "cell list \<Rightarrow> string \<Rightarrow> cell option" where
  "row_get row name = map_of (zip FEATURE_COLUMNS row) name"

text \<open>
  \<^verbatim>\<open>
  try:
      if "id" in df.columns:
          current_id = str(df.iloc[idx]["id"])
          if id_var.get() != current_id:
              id_var.set(current_id)
  except Exception:
      pass
  \<close>
\<close>

definition update_id_var :: "lib \<Rightarrow> session \<Rightarrow> nat \<Rightarrow> session" where
  "update_id_var l s idx =
     (case map_of (cols (s_df s)) ID_COL of
        None \<Rightarrow> s
      | Some c \<Rightarrow>
          (case iloc_cell c idx of
             Inl _ \<Rightarrow> s
           | Inr x \<Rightarrow>
               (let current_id = py_str l x
                in if id_var s \<noteq> current_id then s\<lparr>id_var := current_id\<rparr> else s)))"

definition draw_survival :: "session \<Rightarrow> cell list \<Rightarrow> int \<Rightarrow> session" where
  "draw_survival s row idx =
     (let surv = predict_survival_function (s_cph s) row
      in s\<lparr>surv_view := Drawn (surv, median_survival_time surv, idx)\<rparr>)"

text \<open>
  \<^verbatim>\<open>
  summary = cph.summary
  if not summary.empty:
      hr = summary["exp(coef)"].sort_values()
      colors = ["red" if v > 1 else "green" for v in hr.values]
  \<close>
  A summary row is the covariate, its hazard ratio and the two confidence bounds.
\<close>

definition hazard_ratio :: "string \<times> rat \<times> rat \<times> rat \<Rightarrow> rat" where
  "hazard_ratio r = fst (snd r)"

definition draw_hr :: "lib \<Rightarrow> session \<Rightarrow> session" where
  "draw_hr l s =
     (let sm = summary (s_cph s)
      in if sm \<noteq> []
         then s\<lparr>hr_view :=
                 Drawn (map (\<lambda>(k, v). (k, v, v > 1))
                          (sort_values l (map (\<lambda>r. (fst r, hazard_ratio r)) sm) True))\<rparr>
         else s\<lparr>hr_view := Placeholder\<rparr>)"

definition draw_ch :: "session \<Rightarrow> cell list \<Rightarrow> int \<Rightarrow> session" where
  "draw_ch s row idx =
     s\<lparr>ch_view := Drawn (predict_cumulative_hazard (s_cph s) row, idx)\<rparr>"

text \<open>
  The grouped-survival view.
  \<^verbatim>\<open>
  var = group_var.get()
  if var not in df.columns:
      if groupable_vars:
          var = groupable_vars[0]
          group_var.set(var)
      else:
          ax_groups.text(0.5, 0.5, "no variables to group by", ...)
          canvas_groups.draw()
          return
  \<close>
\<close>

definition choose_group_var :: "session \<Rightarrow> (string \<times> session) option" where
  "choose_group_var s =
     (let var = group_var s
      in if var \<notin> set (columns (s_df s))
         then (case groupable_vars s of
                 [] \<Rightarrow> None
               | v # _ \<Rightarrow> Some (v, s\<lparr>group_var := v\<rparr>))
         else Some (var, s))"

text \<open>
  \<^verbatim>\<open>pd.qcut(x, q=3, labels=[...], duplicates="drop")\<close>. The four edges are the quantiles
  of \<open>x\<close> at 0, 1/3, 2/3 and 1: the first is the minimum of \<open>x\<close>, the last its maximum, and
  the two between are the library's \<open>inner_edges\<close>. Then, as pandas goes on: an edge that
  repeats an earlier one is dropped; the labels must be one fewer than the edges that
  are left, or \<^verbatim>\<open>ValueError\<close> is raised; a value gets the label of its bucket, which has
  its right edge and not its left one, but for the first bucket, which has both. The
  edges are in increasing order, so the bucket that bisection finds for a value is the
  number of edges below it.
\<close>

definition GROUP_LABELS :: "string list" where
  "GROUP_LABELS = [''Low'', ''Medium'', ''High'']"

definition unique :: "'a list \<Rightarrow> 'a list" where
  "unique xs = rev (remdups (rev xs))"

definition quantile_edges :: "lib \<Rightarrow> rat list \<Rightarrow> rat list" where
  "quantile_edges l x =
     [Min (set x), fst (inner_edges l x), snd (inner_edges l x), Max (set x)]"

definition bucket_id :: "rat list \<Rightarrow> rat \<Rightarrow> nat" where
  "bucket_id bins v = (if v = hd bins then 1 else length (filter (\<lambda>b. b < v) bins))"

definition pd_qcut :: "lib \<Rightarrow> rat list \<Rightarrow> string list \<Rightarrow> error + string list" where
  "pd_qcut l x labels =
     (let bins0 = quantile_edges l x;
          unique_bins = unique bins0;
          bins = (if length unique_bins < length bins0 \<and> length bins0 \<noteq> 2
                  then unique_bins else bins0)
      in if length labels \<noteq> length bins - 1 then Inl LabelsError
         else Inr (map (\<lambda>v. labels ! (bucket_id bins v - 1)) x))"

text \<open>
  \<^verbatim>\<open>
  unique_vals = df[var].nunique()
  if pd.api.types.is_numeric_dtype(df[var]) and unique_vals > 3:
      df["_group"] = pd.qcut(df[var], q=3, labels=["Low", "Medium", "High"], duplicates="drop")
  else:
      df["_group"] = df[var].astype(str)
  \<close>
  \<open>group_labels\<close> is the label of every row; \<open>group_column\<close> the column written to the
  frame.
\<close>

definition is_numeric_dtype :: "dtype \<Rightarrow> bool" where
  "is_numeric_dtype d = (d = Int64 \<or> d = Float64 \<or> d = Boolean)"

definition nunique :: "column \<Rightarrow> nat" where
  "nunique c = length (remdups (col_cells c))"

definition group_labels :: "lib \<Rightarrow> column \<Rightarrow> error + string list" where
  "group_labels l c =
     (let unique_vals = nunique c
      in if is_numeric_dtype (col_dtype c) \<and> unique_vals > 3
         then (case traverse numeric_cell (col_cells c) of
                 Inl e \<Rightarrow> Inl e
               | Inr x \<Rightarrow> pd_qcut l x GROUP_LABELS)
         else Inr (map (py_str l) (col_cells c)))"

definition group_column :: "column \<Rightarrow> string list \<Rightarrow> column" where
  "group_column c labels =
     \<lparr>col_dtype = (if is_numeric_dtype (col_dtype c) \<and> nunique c > 3 then Category else Object),
      col_cells = map StrV labels\<rparr>"

text \<open>
  \<^verbatim>\<open>
  for val in sorted(df["_group"].unique()):
      mask = df["_group"] == val
      if mask.sum() == 0:
          continue
      kmf.fit(df.loc[mask, DURATION_COL], event_observed=df.loc[mask, EVENT_COL])
      kmf.plot_survival_function(ax=ax_groups, label=f"{var}={val}")
  \<close>
  A curve is recorded as its label and the (duration, event) pairs the estimator was fit on.
\<close>

definition km_groups ::
  "string list \<Rightarrow> cell list \<Rightarrow> cell list \<Rightarrow> (string \<times> (cell \<times> cell) list) list" where
  "km_groups labels durations events =
     concat (map (\<lambda>val.
               let gmask = map (\<lambda>g. g = val) labels
               in if length (filter (\<lambda>b. b) gmask) = 0 then []
                  else [(val, map snd (filter fst (zip gmask (zip durations events))))])
             (sort (remdups labels)))"

definition draw_groups :: "lib \<Rightarrow> session \<Rightarrow> error + session \<times> bool" where
  "draw_groups l s =
     (case choose_group_var s of
        None \<Rightarrow> Inr (s\<lparr>groups_view := Placeholder\<rparr>, False)
      | Some (var, s1) \<Rightarrow>
          (case get_column (s_df s1) var of
             Inl e \<Rightarrow> Inl e
           | Inr c \<Rightarrow>
               (case group_labels l c of
                  Inl e \<Rightarrow> Inl e
                | Inr labels \<Rightarrow>
                    (let df' = set_column (s_df s1) GROUP_COL (group_column c labels);
                         s2 = s1\<lparr>s_df := df'\<rparr>
                     in if labels = [] then Inr (s2\<lparr>groups_view := Drawn (var, [])\<rparr>, True)
                        else (case get_column df' DURATION_COL of
                                Inl e \<Rightarrow> Inl e
                              | Inr d \<Rightarrow>
                                  (case get_column df' EVENT_COL of
                                     Inl e \<Rightarrow> Inl e
                                   | Inr ev \<Rightarrow>
                                       Inr (s2\<lparr>groups_view :=
                                                 Drawn (var, km_groups labels (col_cells d) (col_cells ev))\<rparr>,
                                            True)))))))"

definition draw_risk :: "session \<Rightarrow> cell list \<Rightarrow> session" where
  "draw_risk s row =
     s\<lparr>risk_label := Some (risk_bucket (predict_partial_hazard (s_cph s) row))\<rparr>"

text \<open>
  The load gauge.
  \<^verbatim>\<open>
  try:
      curr_load = float(row["load"].values[0])
      min_load, max_load = float(df["load"].min()), float(df["load"].max())
      ...
      load_bar['value'] = pct
      load_val_label.config(text=f"{curr_load:.0f} MW  ({pct:.0f}%)")
  except Exception:
      load_bar['value'] = 0
      load_val_label.config(text="- MW")
  \<close>
  The minimum and the maximum of a column of numbers are numbers; those of a column of
  strings are strings, first and last in Python's order of strings, which \<^verbatim>\<open>float\<close>
  then reads; a column that mixes both cannot be ordered.
\<close>

definition column_min_max :: "lib \<Rightarrow> column \<Rightarrow> error + rat \<times> rat" where
  "column_min_max l c =
     (case traverse numeric_cell (col_cells c) of
        Inr loads \<Rightarrow>
          if loads = [] then Inl TypeError else Inr (Min (set loads), Max (set loads))
      | Inl _ \<Rightarrow>
          (case traverse str_cell (col_cells c) of
             Inl e \<Rightarrow> Inl e
           | Inr strs \<Rightarrow>
               and_then (py_float l (StrV (Min (set strs)))) (\<lambda>min_load.
               and_then (py_float l (StrV (Max (set strs)))) (\<lambda>max_load.
               Inr (min_load, max_load)))))"

definition load_gauge :: "lib \<Rightarrow> column \<Rightarrow> nat \<Rightarrow> error + rat \<times> rat" where
  "load_gauge l c idx =
     and_then (iloc_cell c idx) (\<lambda>x.
     and_then (py_float l x) (\<lambda>curr_load.
     and_then (column_min_max l c) (\<lambda>(min_load, max_load).
     Inr (curr_load, load_pct curr_load min_load max_load))))"

definition draw_load_bar :: "lib \<Rightarrow> session \<Rightarrow> nat \<Rightarrow> session" where
  "draw_load_bar l s idx =
     (case and_then (get_column (s_df s) LOAD_COL) (\<lambda>c. load_gauge l c idx) of
        Inl _ \<Rightarrow> s\<lparr>load_bar := 0, load_val_label := None\<rparr>
      | Inr (curr_load, pct) \<Rightarrow> s\<lparr>load_bar := pct, load_val_label := Some (curr_load, pct)\<rparr>)"

text \<open>
  The record card.
  \<^verbatim>\<open>
  try:
      info_parts = []
      if "id" in df.columns:   info_parts.append(f"ID: {df.iloc[idx]['id']}")
      if "name" in df.columns: info_parts.insert(0, f"{df.iloc[idx]['name']}")
      if "type" in df.columns: info_parts.insert(1, f"({df.iloc[idx]['type']})")
      if "load" in row.columns:  info_parts.append(f"...{float(row['load']):.0f} MW")
      if "power" in row.columns: info_parts.append(f"...{float(row['power']):.0f} MW")
      if "util" in row.columns:  info_parts.append(f"...{float(row['util']):.2f}")
      record_summary_label.config(text="  * ".join(info_parts) if info_parts else "Element: -")
  except Exception:
      record_summary_label.config(text="Element: -")
  \<close>
\<close>

definition cell_at :: "dataframe \<Rightarrow> string \<Rightarrow> nat \<Rightarrow> error + cell" where
  "cell_at df name idx =
     (case get_column df name of Inl e \<Rightarrow> Inl e | Inr c \<Rightarrow> iloc_cell c idx)"

definition insert_at :: "nat \<Rightarrow> 'a \<Rightarrow> 'a list \<Rightarrow> 'a list" where
  "insert_at n x xs = take n xs @ x # drop n xs"

definition insert_cell ::
  "dataframe \<Rightarrow> string \<Rightarrow> nat \<Rightarrow> nat \<Rightarrow> (cell \<Rightarrow> info_part) \<Rightarrow> info_part list
     \<Rightarrow> error + info_part list" where
  "insert_cell df name idx pos mk parts =
     (if name \<in> set (columns df)
      then (case cell_at df name idx of
              Inl e \<Rightarrow> Inl e
            | Inr x \<Rightarrow> Inr (insert_at pos (mk x) parts))
      else Inr parts)"

definition append_float ::
  "lib \<Rightarrow> cell list \<Rightarrow> string \<Rightarrow> (rat \<Rightarrow> info_part) \<Rightarrow> info_part list
     \<Rightarrow> error + info_part list" where
  "append_float l row name mk parts =
     (case row_get row name of
        None \<Rightarrow> Inr parts
      | Some x \<Rightarrow> (case py_float l x of Inl e \<Rightarrow> Inl e | Inr r \<Rightarrow> Inr (parts @ [mk r])))"

definition card_parts :: "lib \<Rightarrow> dataframe \<Rightarrow> cell list \<Rightarrow> nat \<Rightarrow> error + info_part list" where
  "card_parts l df row idx =
     and_then (insert_cell df ID_COL idx 0 IdPart []) (\<lambda>p0.
     and_then (insert_cell df NAME_COL idx 0 NamePart p0) (\<lambda>p1.
     and_then (insert_cell df TYPE_COL idx 1 TypePart p1) (\<lambda>p2.
     and_then (append_float l row LOAD_COL LoadPart p2) (\<lambda>p3.
     and_then (append_float l row POWER_COL PowerPart p3) (\<lambda>p4.
     append_float l row UTIL_COL UtilPart p4)))))"

definition draw_record_card :: "lib \<Rightarrow> session \<Rightarrow> cell list \<Rightarrow> nat \<Rightarrow> session" where
  "draw_record_card l s row idx =
     (case card_parts l (s_df s) row idx of
        Inl _ \<Rightarrow> s\<lparr>record_summary := None\<rparr>
      | Inr parts \<Rightarrow> s\<lparr>record_summary := (if parts \<noteq> [] then Some parts else None)\<rparr>)"

text \<open>
  The detail panel prints every column of the selected row.
  \<^verbatim>\<open>
  try:
      details_text.delete("1.0", tk.END)
      full_row = df.iloc[idx].to_dict()
      for k, v in full_row.items():
          details_text.insert(tk.END, f"  {k}: {v}\n")
      if ("type" not in df.columns) or (not str(full_row.get("type")).strip()):
          inferred = infer_type_row(full_row) if 'infer_type_row' in globals() else "N/a"
          details_text.insert(tk.END, f"... {inferred}\n")
  except Exception:
      pass
  \<close>
  \<^verbatim>\<open>infer_type_row\<close> is local to \<^verbatim>\<open>run_dashboard\<close>, never a global, so the interpretation
  line always reads \<^verbatim>\<open>N/a\<close>.
\<close>

definition full_row :: "dataframe \<Rightarrow> nat \<Rightarrow> error + (string \<times> cell) list" where
  "full_row df idx =
     traverse (\<lambda>(k, c). case iloc_cell c idx of Inl e \<Rightarrow> Inl e | Inr v \<Rightarrow> Inr (k, v)) (cols df)"

definition draw_details :: "lib \<Rightarrow> session \<Rightarrow> nat \<Rightarrow> session" where
  "draw_details l s idx =
     (case full_row (s_df s) idx of
        Inl _ \<Rightarrow> s\<lparr>details_text := ([], None)\<rparr>
      | Inr fr \<Rightarrow>
          s\<lparr>details_text :=
              (fr,
               if TYPE_COL \<notin> set (columns (s_df s))
                  \<or> (case map_of fr TYPE_COL of
                        None \<Rightarrow> False
                      | Some v \<Rightarrow> py_strip l (py_str l v) = [])
               then Some ''N/a'' else None)\<rparr>)"

text \<open>
  The report: the summary rows by decreasing distance of the hazard ratio from 1.
  \<^verbatim>\<open>
  percent = (hr_val - 1) * 100
  if hr_val > 1.1:   effect = increases by percent
  elif hr_val < 0.9: effect = decreases by abs(percent)
  else:              effect = almost none
  \<close>
\<close>

definition effect_of :: "rat \<Rightarrow> effect" where
  "effect_of hr_val =
     (let percent = (hr_val - 1) * 100
      in if hr_val > 11 / 10 then Increases percent
         else if hr_val < 9 / 10 then Decreases \<bar>percent\<bar>
         else Negligible)"

text \<open>
  \<^verbatim>\<open>
  sorted_summary = summary.reindex(
      summary["exp(coef)"].sub(1).abs().sort_values(ascending=False).index)
  ...
  report_text.insert(tk.END, f"... {sorted_summary.index[0]}\n")
  \<close>
  The rows of the summary, taken in the order of the labels the sort returns.
\<close>

definition sorted_summary ::
  "lib \<Rightarrow> (string \<times> rat \<times> rat \<times> rat) list \<Rightarrow> (string \<times> rat \<times> rat \<times> rat) list" where
  "sorted_summary l sm =
     List.map_filter (\<lambda>k. find (\<lambda>r. fst r = k) sm)
       (map fst (sort_values l (map (\<lambda>r. (fst r, \<bar>hazard_ratio r - 1\<bar>)) sm) False))"

definition draw_report :: "lib \<Rightarrow> session \<Rightarrow> int \<Rightarrow> error + session" where
  "draw_report l s idx =
     (let sm = summary (s_cph s)
      in if sm \<noteq> []
         then (case sorted_summary l sm of
                 [] \<Rightarrow> Inl IndexError
               | r # rs \<Rightarrow>
                   Inr (s\<lparr>report_text :=
                          Drawn (map (\<lambda>(feature, hr_val, ci_low, ci_high).
                                        (feature, effect_of hr_val, hr_val, ci_low, ci_high))
                                   (r # rs),
                                 fst r, idx, risk_label s)\<rparr>))
         else Inr (s\<lparr>report_text := Placeholder\<rparr>))"

text \<open>
  \<^verbatim>\<open>update_dashboard\<close>: the index, the range check, then the views in the order of the
  source. An exception that no \<^verbatim>\<open>except\<close> catches is the result \<open>Inl\<close>. When no variable
  can be grouped by, the function returns after the placeholder of the grouped view.
\<close>

definition update_dashboard :: "lib \<Rightarrow> session \<Rightarrow> error + session" where
  "update_dashboard l s0 =
     (case get_idx s0 of
        (idx, s) \<Rightarrow>
          if idx < 0 \<or> idx \<ge> int (len_df (s_df s))
          then Inr (s\<lparr>dialogs := dialogs s @ [ShowError idx]\<rparr>)
          else (case feature_row (s_df s) (nat idx) of
                  Inl e \<Rightarrow> Inl e
                | Inr row \<Rightarrow>
                    (case draw_groups l
                            (draw_ch (draw_hr l (draw_survival (update_id_var l s (nat idx)) row idx))
                               row idx) of
                       Inl e \<Rightarrow> Inl e
                     | Inr (s5, False) \<Rightarrow> Inr s5
                     | Inr (s5, True) \<Rightarrow>
                         draw_report l
                           (draw_details l
                              (draw_record_card l (draw_load_bar l (draw_risk s5 row) (nat idx))
                                 row (nat idx))
                              (nat idx))
                           idx)))"

text \<open>
  \<^verbatim>\<open>regenerate_data\<close>: a fresh frame of 150 rows and its model replace the old ones, the
  selection goes back to 0, the controls are refilled, and the views are recomputed. Its
  own back-fill of the type column compares the power cells themselves:
  \<^verbatim>\<open>
  if "type" not in df.columns:
      df["type"] = df["power"].apply(
          lambda p: ("Generator" if p>6000 else ("Substation" if p>5200 else "Line")))
  \<close>
\<close>

definition backfill_type_by_power :: "dataframe \<Rightarrow> error + dataframe" where
  "backfill_type_by_power df =
     (if TYPE_COL \<notin> set (columns df)
      then (case get_column df POWER_COL of
              Inl e \<Rightarrow> Inl e
            | Inr c \<Rightarrow>
                (case traverse numeric_cell (col_cells c) of
                   Inl e \<Rightarrow> Inl e
                 | Inr ps \<Rightarrow>
                     Inr (set_column df TYPE_COL
                           \<lparr>col_dtype = Object,
                            col_cells = map (\<lambda>p. StrV (infer_type_by_power p)) ps\<rparr>)))
      else Inr df)"

definition regenerate_data :: "lib \<Rightarrow> rng \<Rightarrow> session \<Rightarrow> error + session" where
  "regenerate_data l g s =
     (let df = generate_random_data l g 150
      in case train_cox_model l df of
           Inl e \<Rightarrow> Inl e
         | Inr m \<Rightarrow>
             (let gv = filter (\<lambda>c. c \<in> set (columns df)) FEATURE_COLUMNS;
                  new_ids = (case map_of (cols df) ID_COL of
                               Some c \<Rightarrow> map (py_str l) (col_cells c)
                             | None \<Rightarrow> map (\<lambda>i. py_str l (IntV (int i))) [0..<len_df df]);
                  s1 = s\<lparr>s_df := df, s_cph := m, obj_var := IntText 0,
                         source_label := ''random data'', groupable_vars := gv,
                         group_values := gv,
                         group_var := (case gv of [] \<Rightarrow> group_var s | v # _ \<Rightarrow> v),
                         id_values := new_ids,
                         id_var := (case new_ids of [] \<Rightarrow> id_var s | i # _ \<Rightarrow> i)\<rparr>
              in case and_then (backfill_name l df) backfill_type_by_power of
                   Inl e \<Rightarrow> Inl e
                 | Inr df2 \<Rightarrow>
                     update_dashboard l (s1\<lparr>s_df := df2, spin_to := max 0 (len_df df2 - 1)\<rparr>)))"

section \<open>A small session\<close>

text \<open>
  A concrete library, model and frame, on which the definitions above are evaluated. The
  library prints integers in decimal and integral floats with one decimal zero, as Python
  does (no evaluation below prints any other float), reads the strings \<^verbatim>\<open>0\<close> and
  \<^verbatim>\<open>1\<close> as integers, strips ASCII white space, and sorts keeping equal values in the
  order met (the summary sorted below has one row). Its inner quantile edges answer on
  one list only, the numbers 1, 1, 1, 2, 2, 3, 4: the edge at 1/3 lies between the second
  and the third of them, both 1, and the edge at 2/3 between the fourth and the fifth,
  both 2, so that no rounding of the interpolation plays a part. The frame has two
  records, with a holiday flag of 0 and 1.
\<close>

fun decimal :: "nat \<Rightarrow> string" where
  "decimal n =
     (if n < 10 then [''0123456789'' ! n]
      else decimal (n div 10) @ [''0123456789'' ! (n mod 10)])"

declare decimal.simps [simp del]

definition demo_str :: "cell \<Rightarrow> string" where
  "demo_str x =
     (case x of
        StrV t \<Rightarrow> t
      | BoolV b \<Rightarrow> (if b then ''True'' else ''False'')
      | IntV i \<Rightarrow> (if i < 0 then CHR ''-'' # decimal (nat (- i)) else decimal (nat i))
      | FloatV r \<Rightarrow>
          (if r = of_int \<lfloor>r\<rfloor> \<and> 0 \<le> r then decimal (nat \<lfloor>r\<rfloor>) @ ''.0'' else []))"

definition demo_strip :: "string \<Rightarrow> string" where
  "demo_strip t =
     (let sp = (\<lambda>c. (of_char c :: nat) \<in> set [9, 10, 11, 12, 13, 28, 29, 30, 31, 32])
      in dropWhile sp (rev (dropWhile sp (rev t))))"

definition demo_model :: cox_model where
  "demo_model =
     \<lparr>predict_survival_function = (\<lambda>row. [(0, 1), (10, 3 / 4), (20, 1 / 2), (30, 1 / 4)]),
      predict_cumulative_hazard = (\<lambda>row. [(0, 0), (10, 1 / 4), (20, 3 / 4), (30, 3 / 2)]),
      predict_partial_hazard = (\<lambda>row. 1),
      summary = [(LOAD_COL, 3 / 2, 1, 2)]\<rparr>"

definition demo_lib :: lib where
  "demo_lib =
     \<lparr>cox_fit = (\<lambda>df. Inr demo_model),
      py_int_of_str = (\<lambda>t. if t = ''0'' then Some 0 else if t = ''1'' then Some 1 else None),
      py_float_of_str = (\<lambda>t. None),
      py_str = demo_str,
      py_strip = demo_strip,
      sort_values = (\<lambda>xs asc. if asc then sort_key snd xs else rev (sort_key snd (rev xs))),
      inner_edges = (\<lambda>x. if sort x = [1, 1, 1, 2, 2, 3, 4] then (1, 2) else (0, 0))\<rparr>"

definition demo_rng :: rng where
  "demo_rng =
     \<lparr>draw_duration = (\<lambda>i. 10 + int i),
      draw_event = (\<lambda>i. int (i mod 2)),
      draw_load = (\<lambda>i. 3000 + of_nat i),
      draw_power = (\<lambda>i. 4000 + of_nat i),
      draw_util = (\<lambda>i. 1 / 2),
      draw_temp = (\<lambda>i. of_nat i),
      draw_wind = (\<lambda>i. of_nat (i mod 15)),
      draw_holiday = (\<lambda>i. int (i mod 2)),
      draw_age = (\<lambda>i. 1 + int (i mod 49))\<rparr>"

definition demo_df :: dataframe where
  "demo_df =
     \<lparr>nrows = 2,
      cols =
        [(ID_COL, \<lparr>col_dtype = Int64, col_cells = [IntV 1, IntV 2]\<rparr>),
         (DURATION_COL, \<lparr>col_dtype = Int64, col_cells = [IntV 10, IntV 20]\<rparr>),
         (EVENT_COL, \<lparr>col_dtype = Int64, col_cells = [IntV 1, IntV 0]\<rparr>),
         (LOAD_COL, \<lparr>col_dtype = Float64, col_cells = [FloatV 3000, FloatV 5000]\<rparr>),
         (POWER_COL, \<lparr>col_dtype = Float64, col_cells = [FloatV 4000, FloatV 6500]\<rparr>),
         (UTIL_COL, \<lparr>col_dtype = Float64, col_cells = [FloatV (1 / 2), FloatV (3 / 4)]\<rparr>),
         (''temperatura_s'', \<lparr>col_dtype = Float64, col_cells = [FloatV (- 5), FloatV 20]\<rparr>),
         (''viter_m_s'', \<lparr>col_dtype = Float64, col_cells = [FloatV 3, FloatV 7]\<rparr>),
         (''sviato'', \<lparr>col_dtype = Int64, col_cells = [IntV 0, IntV 1]\<rparr>),
         (''vik_rokiv'', \<lparr>col_dtype = Int64, col_cells = [IntV 5, IntV 30]\<rparr>),
         (NAME_COL, \<lparr>col_dtype = Object, col_cells = [StrV ''Element-1'', StrV ''Element-2'']\<rparr>),
         (TYPE_COL, \<lparr>col_dtype = Object, col_cells = [StrV ''Line'', StrV ''Generator'']\<rparr>)]\<rparr>"

definition demo_session :: session where
  "demo_session =
     \<lparr>s_df = demo_df, s_cph = demo_model, source_label = ''random data'',
      groupable_vars = FEATURE_COLUMNS, obj_var = IntText 0, spin_to = 1,
      id_var = ''1'', id_values = [''1'', ''2''],
      group_var = ''sviato'', group_values = FEATURE_COLUMNS, dialogs = [],
      surv_view = Blank, hr_view = Blank, ch_view = Blank, groups_view = Blank,
      risk_label = None, load_bar = 0, load_val_label = None, record_summary = None,
      details_text = ([], None), report_text = Blank\<rparr>"

text \<open>
  Frames of four records with every required column, which differ in the event column:
  one that pandas read as booleans, one that it read as strings (dtype object).
\<close>

definition four_records :: "column \<Rightarrow> dataframe" where
  "four_records ev =
     \<lparr>nrows = 4,
      cols =
        [(DURATION_COL, \<lparr>col_dtype = Int64, col_cells = [IntV 10, IntV 20, IntV 30, IntV 40]\<rparr>),
         (EVENT_COL, ev),
         (LOAD_COL, \<lparr>col_dtype = Float64,
                     col_cells = [FloatV 3000, FloatV 5000, FloatV 4000, FloatV 4500]\<rparr>),
         (POWER_COL, \<lparr>col_dtype = Float64,
                      col_cells = [FloatV 4000, FloatV 6500, FloatV 5500, FloatV 5000]\<rparr>),
         (UTIL_COL, \<lparr>col_dtype = Float64,
                     col_cells = [FloatV (3 / 4), FloatV (3 / 4), FloatV (1 / 2), FloatV (1 / 2)]\<rparr>),
         (''temperatura_s'', \<lparr>col_dtype = Float64,
                              col_cells = [FloatV (- 5), FloatV 20, FloatV 10, FloatV 0]\<rparr>),
         (''viter_m_s'', \<lparr>col_dtype = Float64,
                          col_cells = [FloatV 3, FloatV 7, FloatV 5, FloatV 1]\<rparr>),
         (''sviato'', \<lparr>col_dtype = Int64, col_cells = [IntV 0, IntV 1, IntV 0, IntV 0]\<rparr>),
         (''vik_rokiv'', \<lparr>col_dtype = Int64, col_cells = [IntV 5, IntV 30, IntV 12, IntV 8]\<rparr>)]\<rparr>"

definition bool_event_df :: dataframe where
  "bool_event_df =
     four_records \<lparr>col_dtype = Boolean,
                   col_cells = [BoolV True, BoolV False, BoolV True, BoolV False]\<rparr>"

definition object_event_df :: dataframe where
  "object_event_df =
     four_records \<lparr>col_dtype = Object,
                   col_cells = [StrV ''1'', StrV ''0'', StrV ''1'', StrV ''0'']\<rparr>"

text \<open>A frame that has the duration and the event and no covariate.\<close>

definition no_covariates_df :: dataframe where
  "no_covariates_df =
     \<lparr>nrows = 2,
      cols =
        [(DURATION_COL, \<lparr>col_dtype = Int64, col_cells = [IntV 10, IntV 20]\<rparr>),
         (EVENT_COL, \<lparr>col_dtype = Int64, col_cells = [IntV 1, IntV 0]\<rparr>)]\<rparr>"

text \<open>
  A session of seven records in which three have the least age, 1, and the ages
  1, 2, 3 and 4 all occur; the records are grouped by the age.
\<close>

definition skewed_df :: dataframe where
  "skewed_df =
     \<lparr>nrows = 7,
      cols =
        [(ID_COL, \<lparr>col_dtype = Int64,
                   col_cells = [IntV 1, IntV 2, IntV 3, IntV 4, IntV 5, IntV 6, IntV 7]\<rparr>),
         (DURATION_COL, \<lparr>col_dtype = Int64,
                         col_cells = [IntV 10, IntV 20, IntV 30, IntV 40, IntV 50, IntV 60,
                                      IntV 70]\<rparr>),
         (EVENT_COL, \<lparr>col_dtype = Int64,
                      col_cells = [IntV 1, IntV 0, IntV 1, IntV 1, IntV 0, IntV 1, IntV 0]\<rparr>),
         (LOAD_COL, \<lparr>col_dtype = Float64,
                     col_cells = [FloatV 3000, FloatV 5000, FloatV 4000, FloatV 4500,
                                  FloatV 3500, FloatV 5500, FloatV 6000]\<rparr>),
         (POWER_COL, \<lparr>col_dtype = Float64,
                      col_cells = [FloatV 4000, FloatV 6500, FloatV 5500, FloatV 5000,
                                   FloatV 4500, FloatV 6000, FloatV 7000]\<rparr>),
         (UTIL_COL, \<lparr>col_dtype = Float64,
                     col_cells = [FloatV (3 / 4), FloatV (3 / 4), FloatV (1 / 2), FloatV (1 / 2),
                                  FloatV (3 / 4), FloatV (1 / 2), FloatV (3 / 4)]\<rparr>),
         (''temperatura_s'', \<lparr>col_dtype = Float64,
                              col_cells = [FloatV (- 5), FloatV 20, FloatV 10, FloatV 0,
                                           FloatV 5, FloatV 15, FloatV 25]\<rparr>),
         (''viter_m_s'', \<lparr>col_dtype = Float64,
                          col_cells = [FloatV 3, FloatV 7, FloatV 5, FloatV 1, FloatV 2,
                                       FloatV 4, FloatV 6]\<rparr>),
         (''sviato'', \<lparr>col_dtype = Int64,
                       col_cells = [IntV 0, IntV 1, IntV 0, IntV 0, IntV 1, IntV 0, IntV 0]\<rparr>),
         (''vik_rokiv'', \<lparr>col_dtype = Int64,
                          col_cells = [IntV 2, IntV 1, IntV 4, IntV 1, IntV 3, IntV 1,
                                       IntV 2]\<rparr>),
         (NAME_COL, \<lparr>col_dtype = Object,
                     col_cells = [StrV ''Element-1'', StrV ''Element-2'', StrV ''Element-3'',
                                  StrV ''Element-4'', StrV ''Element-5'', StrV ''Element-6'',
                                  StrV ''Element-7'']\<rparr>),
         (TYPE_COL, \<lparr>col_dtype = Object,
                     col_cells = [StrV ''Line'', StrV ''Generator'', StrV ''Substation'',
                                  StrV ''Line'', StrV ''Line'', StrV ''Substation'',
                                  StrV ''Generator'']\<rparr>)]\<rparr>"

definition skewed_session :: session where
  "skewed_session =
     demo_session\<lparr>s_df := skewed_df, spin_to := 6, group_var := ''vik_rokiv'',
                  id_values := [''1'', ''2'', ''3'', ''4'', ''5'', ''6'', ''7'']\<rparr>"

section \<open>The column check\<close>

text \<open>
  Claim C9. \<open>ensure_columns\<close> raises exactly when some required column is absent from the
  frame; the error then carries the required columns that are absent, in the order they
  were required, and the columns the frame has. When every required column is present
  nothing is raised; the function returns no frame and assigns to none, so the table is
  as it was.
\<close>

theorem ensure_columns_missing:
  "ensure_columns df required_cols =
     (if set required_cols \<subseteq> set (columns df) then Inr ()
      else Inl (ValueError (filter (\<lambda>c. c \<notin> set (columns df)) required_cols) (columns df)))
   \<and> set (filter (\<lambda>c. c \<notin> set (columns df)) required_cols)
       = set required_cols - set (columns df)"
  by (auto simp: ensure_columns_def Let_def filter_empty_conv)

section \<open>The risk bucket\<close>

text \<open>
  Claim C5. The bucket depends on the partial hazard alone, with the fixed thresholds 0.8
  and 1.2: low below 0.8, high from 1.2 on, moderate between; so 0.79 is low, 0.8 and 1.19
  are moderate and 1.2 is high.
\<close>

theorem risk_bucket_thresholds:
  "risk_bucket x = (if x < 8 / 10 then Low else if 12 / 10 \<le> x then High else Moderate)
   \<and> risk_bucket (79 / 100) = Low \<and> risk_bucket (8 / 10) = Moderate
   \<and> risk_bucket (119 / 100) = Moderate \<and> risk_bucket (12 / 10) = High"
  by (simp add: risk_bucket_def not_less)

section \<open>The median survival time\<close>

text \<open>\<^verbatim>\<open>np.argmax\<close> of a mask with a true entry is the position of its first true entry.\<close>

lemma argmax_from_True: "argmax_from bs i True besti = besti"
  by (induction bs arbitrary: i) auto

lemma argmax_from_False:
  "argmax_from bs i False besti =
     (if list_ex (\<lambda>b. b) bs then i + length (takeWhile (\<lambda>b. \<not> b) bs) else besti)"
  by (induction bs arbitrary: i) (auto simp: argmax_from_True)

lemma np_argmax_first:
  "list_ex (\<lambda>b. b) bs \<Longrightarrow> np_argmax bs = length (takeWhile (\<lambda>b. \<not> b) bs)"
  by (cases bs) (auto simp: np_argmax_def argmax_from_True argmax_from_False)

lemma takeWhile_lt_length:
  "\<exists>x \<in> set xs. \<not> P x \<Longrightarrow> length (takeWhile P xs) < length xs"
  by (induction xs) auto

lemma median_alt:
  "median_survival_time surv =
     (if \<exists>x \<in> set surv. snd x \<le> 1 / 2
      then Some (fst (surv ! length (takeWhile (\<lambda>x. \<not> snd x \<le> 1 / 2) surv)))
      else None)"
proof (cases "\<exists>x \<in> set surv. snd x \<le> 1 / 2")
  case True
  let ?m = "map (\<lambda>y. y \<le> 1 / 2) (map snd surv)"
  have any: "list_ex (\<lambda>b. b) ?m" using True by (auto simp: list_ex_iff)
  have len: "length (takeWhile (\<lambda>b. \<not> b) ?m) = length (takeWhile (\<lambda>x. \<not> snd x \<le> 1 / 2) surv)"
    by (simp add: takeWhile_map comp_def)
  have lt: "length (takeWhile (\<lambda>x. \<not> snd x \<le> 1 / 2) surv) < length surv"
    using True by (intro takeWhile_lt_length) auto
  have arg: "np_argmax ?m = length (takeWhile (\<lambda>x. \<not> snd x \<le> 1 / 2) surv)"
    by (simp only: np_argmax_first [OF any] len)
  have "median_survival_time surv =
          (if list_ex (\<lambda>b. b) ?m then Some (map fst surv ! np_argmax ?m) else None)"
    by (simp only: median_survival_time_def Let_def)
  also have "\<dots> = Some (map fst surv ! length (takeWhile (\<lambda>x. \<not> snd x \<le> 1 / 2) surv))"
    by (simp only: any arg if_True)
  also have "\<dots> = Some (fst (surv ! length (takeWhile (\<lambda>x. \<not> snd x \<le> 1 / 2) surv)))"
    using lt by (simp only: nth_map)
  finally show ?thesis using True by simp
next
  case False
  then have "\<not> list_ex (\<lambda>b. b) (map (\<lambda>y. y \<le> 1 / 2) (map snd surv))"
    by (auto simp: list_ex_iff)
  then show ?thesis using False by (simp add: median_survival_time_def Let_def)
qed

lemma find_takeWhile:
  "find P xs = (if \<exists>x \<in> set xs. P x then Some (xs ! length (takeWhile (\<lambda>x. \<not> P x) xs)) else None)"
  by (induction xs) auto

lemma median_find:
  "median_survival_time surv =
     (case find (\<lambda>(t, p). p \<le> 1 / 2) surv of None \<Rightarrow> None | Some (t, p) \<Rightarrow> Some t)"
proof -
  have eq: "(\<lambda>(t, p). p \<le> 1 / 2) = (\<lambda>x::rat \<times> rat. snd x \<le> 1 / 2)" by (auto simp: fun_eq_iff)
  show ?thesis
    unfolding eq median_alt find_takeWhile [of "\<lambda>x. snd x \<le> 1 / 2"]
    by (simp add: case_prod_beta)
qed

lemma median_index:
  assumes "median_survival_time surv = Some t"
  shows "\<exists>i < length surv. fst (surv ! i) = t \<and> snd (surv ! i) \<le> 1 / 2
            \<and> (\<forall>j < i. 1 / 2 < snd (surv ! j))"
proof -
  let ?i = "length (takeWhile (\<lambda>x. \<not> snd x \<le> 1 / 2) surv)"
  from assms have ex: "\<exists>x \<in> set surv. snd x \<le> 1 / 2" and t: "t = fst (surv ! ?i)"
    by (auto simp: median_alt split: if_splits)
  have lt: "?i < length surv" using ex by (intro takeWhile_lt_length) auto
  have hit: "snd (surv ! ?i) \<le> 1 / 2"
    using nth_length_takeWhile [OF lt] by simp
  have before: "\<forall>j < ?i. 1 / 2 < snd (surv ! j)"
  proof (intro allI impI)
    fix j assume j: "j < ?i"
    have "surv ! j = takeWhile (\<lambda>x. \<not> snd x \<le> 1 / 2) surv ! j"
      using j by (simp add: takeWhile_nth)
    moreover have "takeWhile (\<lambda>x. \<not> snd x \<le> 1 / 2) surv ! j \<in> set (takeWhile (\<lambda>x. \<not> snd x \<le> 1 / 2) surv)"
      using j by simp
    ultimately have "\<not> snd (surv ! j) \<le> 1 / 2" by (auto dest: set_takeWhileD)
    then show "1 / 2 < snd (surv ! j)" by simp
  qed
  show ?thesis using lt t hit before by blast
qed

lemma median_least:
  assumes s: "sorted (map fst surv)" and m: "median_survival_time surv = Some t"
    and x: "(t', p') \<in> set surv" and p: "p' \<le> 1 / 2"
  shows "t \<le> t'"
proof -
  from median_index [OF m] obtain i where i: "i < length surv" "fst (surv ! i) = t"
    and before: "\<forall>j < i. 1 / 2 < snd (surv ! j)" by blast
  from x obtain k where k: "k < length surv" "surv ! k = (t', p')"
    by (auto simp: in_set_conv_nth)
  have "\<not> k < i" using before k p by auto
  then have "i \<le> k" by simp
  then have "map fst surv ! i \<le> map fst surv ! k"
    using s k by (simp add: sorted_iff_nth_mono del: nth_map)
  then show ?thesis using i k by simp
qed

text \<open>
  Claim C4. The median survival time of a curve is the time of its first point whose
  probability is at most 0.5; there is none exactly when every probability exceeds 0.5;
  the point found has only points above 0.5 before it; and on a curve in increasing time
  order it is the least time of any point at or below 0.5. The result is a function of the
  curve, so computing it again gives the same value.
\<close>

theorem median_survival_time_first:
  "median_survival_time surv =
     (case find (\<lambda>(t, p). p \<le> 1 / 2) surv of None \<Rightarrow> None | Some (t, p) \<Rightarrow> Some t)
   \<and> ((median_survival_time surv = None) = (\<forall>(t, p) \<in> set surv. 1 / 2 < p))
   \<and> (\<forall>t. median_survival_time surv = Some t \<longrightarrow>
         (\<exists>i < length surv. fst (surv ! i) = t \<and> snd (surv ! i) \<le> 1 / 2
            \<and> (\<forall>j < i. 1 / 2 < snd (surv ! j))))
   \<and> (sorted (map fst surv) \<longrightarrow>
         (\<forall>t. median_survival_time surv = Some t \<longrightarrow>
            (\<forall>(t', p') \<in> set surv. p' \<le> 1 / 2 \<longrightarrow> t \<le> t')))"
proof (intro conjI)
  show "median_survival_time surv =
     (case find (\<lambda>(t, p). p \<le> 1 / 2) surv of None \<Rightarrow> None | Some (t, p) \<Rightarrow> Some t)"
    by (rule median_find)
  show "(median_survival_time surv = None) = (\<forall>(t, p) \<in> set surv. 1 / 2 < p)"
    by (force simp: median_alt not_le case_prod_beta)
  show "\<forall>t. median_survival_time surv = Some t \<longrightarrow>
         (\<exists>i < length surv. fst (surv ! i) = t \<and> snd (surv ! i) \<le> 1 / 2
            \<and> (\<forall>j < i. 1 / 2 < snd (surv ! j)))"
    using median_index by blast
  show "sorted (map fst surv) \<longrightarrow>
         (\<forall>t. median_survival_time surv = Some t \<longrightarrow>
            (\<forall>(t', p') \<in> set surv. p' \<le> 1 / 2 \<longrightarrow> t \<le> t'))"
    using median_least by blast
qed

theorem median_survival_time_first_witness:
  "sorted (map fst [(0 :: rat, 1 :: rat), (1, 3 / 4), (2, 1 / 2), (3, 1 / 4)])
   \<and> median_survival_time [(0, 1), (1, 3 / 4), (2, 1 / 2), (3, 1 / 4)] = Some 2
   \<and> median_survival_time [(0, 1), (1, 3 / 4)] = None"
  using median_survival_time_first [of "[(0, 1), (1, 3 / 4), (2, 1 / 2), (3, 1 / 4)]"]
    median_survival_time_first [of "[(0, 1), (1, 3 / 4)]"]
  by simp

section \<open>The load gauge\<close>






section \<open>Start-up\<close>

text \<open>The synthetic frame has every column the fit and the display need.\<close>

lemmas col_names = DURATION_COL_def EVENT_COL_def LOAD_COL_def POWER_COL_def UTIL_COL_def
  ID_COL_def NAME_COL_def TYPE_COL_def GROUP_COL_def FEATURE_COLUMNS_def

lemma columns_generate_random_data:
  "columns (generate_random_data l g n) =
     [ID_COL, DURATION_COL, EVENT_COL] @ FEATURE_COLUMNS @ [NAME_COL, TYPE_COL]"
  by (simp add: generate_random_data_def columns_def Let_def FEATURE_COLUMNS_def)

lemma len_generate_random_data: "len_df (generate_random_data l g n) = n"
  by (simp add: generate_random_data_def len_df_def Let_def)

lemma backfill_generate_random_data:
  "backfill_name l (generate_random_data l g n) = Inr (generate_random_data l g n)"
  "backfill_type l (generate_random_data l g n) = generate_random_data l g n"
  by (simp_all add: backfill_name_def backfill_type_def columns_generate_random_data)

lemma coerce_event_generate_random_data:
  "coerce_event l (generate_random_data l g n) = Inr (generate_random_data l g n)"
  by (simp add: coerce_event_def get_column_def generate_random_data_def Let_def col_names)

lemma get_column_generate_random_data:
  "name \<in> set ([DURATION_COL, EVENT_COL] @ FEATURE_COLUMNS) \<Longrightarrow>
     \<exists>c. get_column (generate_random_data l g n) name = Inr c"
  by (auto simp: get_column_def generate_random_data_def Let_def col_names)

lemma traverse_all_ok:
  "(\<And>x. x \<in> set xs \<Longrightarrow> \<exists>y. f x = Inr y) \<Longrightarrow> \<exists>ys. traverse f xs = Inr ys"
proof (induction xs)
  case Nil
  show ?case by simp
next
  case (Cons a xs)
  then obtain y ys where "f a = Inr y" "traverse f xs = Inr ys" by (meson list.set_intros)
  then show ?case by simp
qed

lemma select_generate_random_data:
  "\<exists>fit_df. select_columns (generate_random_data l g n)
       ([DURATION_COL, EVENT_COL] @ FEATURE_COLUMNS) = Inr fit_df"
proof -
  let ?f = "\<lambda>nm. case get_column (generate_random_data l g n) nm of
                    Inl e \<Rightarrow> Inl e | Inr c \<Rightarrow> Inr (nm, c)"
  have "\<exists>ys. traverse ?f ([DURATION_COL, EVENT_COL] @ FEATURE_COLUMNS) = Inr ys"
  proof (rule traverse_all_ok)
    fix x assume "x \<in> set ([DURATION_COL, EVENT_COL] @ FEATURE_COLUMNS)"
    from get_column_generate_random_data [OF this, of l g n]
    show "\<exists>y. ?f x = Inr y" by auto
  qed
  then show ?thesis unfolding select_columns_def by auto
qed

lemma train_generate_random_data:
  "cox_fit l = (\<lambda>df. Inr m) \<Longrightarrow> train_cox_model l (generate_random_data l g n) = Inr m"
  using select_generate_random_data [of l g n]
  by (auto simp: train_cox_model_def coerce_event_generate_random_data)

lemma load_csv_Inl_iff:
  "(load_csv l csv = Inl e) =
     (csv = Inl e
      \<or> (\<exists>df. csv = Inr df
            \<and> (ensure_columns df ([DURATION_COL, EVENT_COL] @ FEATURE_COLUMNS) = Inl e
                \<or> (ensure_columns df ([DURATION_COL, EVENT_COL] @ FEATURE_COLUMNS) = Inr ()
                    \<and> train_cox_model l df = Inl e))))"
  by (cases csv) (auto simp: load_csv_def split: sum.splits)

text \<open>
  The records of the synthetic frame: record \<open>i\<close> has the number \<open>i + 1\<close>, the draws at
  position \<open>i\<close>, its name and the type of its power; there is no record at \<open>n\<close> or beyond.
\<close>

lemma full_row_generate_random_data:
  assumes "i < n"
  shows "full_row (generate_random_data l g n) i =
     Inr [(ID_COL, IntV (int i + 1)),
            (DURATION_COL, IntV (draw_duration g i)),
            (EVENT_COL, IntV (draw_event g i)),
            (LOAD_COL, FloatV (rng.draw_load g i)),
            (POWER_COL, FloatV (draw_power g i)),
            (UTIL_COL, FloatV (draw_util g i)),
            (''temperatura_s'', FloatV (draw_temp g i)),
            (''viter_m_s'', FloatV (draw_wind g i)),
            (''sviato'', IntV (draw_holiday g i)),
            (''vik_rokiv'', IntV (draw_age g i)),
            (NAME_COL, StrV (''Element-'' @ py_str l (IntV (int i + 1)))),
            (TYPE_COL, StrV (infer_type_by_power (draw_power g i)))]"
  using assms
  by (simp add: full_row_def generate_random_data_def Let_def iloc_cell_def)

lemma full_row_generate_random_data_beyond:
  assumes "n \<le> i"
  shows "full_row (generate_random_data l g n) i = Inl IndexError"
  using assms
  by (simp add: full_row_def generate_random_data_def Let_def iloc_cell_def)

text \<open>
  Claim C1. When loading the CSV fails, whether the read raises, a required column is
  missing or the fit on the loaded frame fails, start-up goes on: the frame is the
  synthetic one, the model is the one fit on it, and a warning carries the reason of the
  failure. Only a failure of the fit on the synthetic frame ends start-up, with that
  exception. The synthetic frame has 120 records of twelve fields each: every index
  below 120 is a record of the drawn values, and 120 is none.
\<close>

theorem load_failure_falls_back:
  assumes "csv = Inl e
      \<or> (\<exists>df. csv = Inr df
            \<and> (ensure_columns df ([DURATION_COL, EVENT_COL] @ FEATURE_COLUMNS) = Inl e
                \<or> (ensure_columns df ([DURATION_COL, EVENT_COL] @ FEATURE_COLUMNS) = Inr ()
                    \<and> train_cox_model l df = Inl e)))"
  shows "(case train_cox_model l (generate_random_data l g 120) of
            Inl e2 \<Rightarrow> run_dashboard_data l g csv = Inl e2
          | Inr m \<Rightarrow>
              run_dashboard_data l g csv =
                Inr \<lparr>ld_df = generate_random_data l g 120, ld_cph = m,
                     ld_source_label = ''random data'', ld_dialogs = [ShowWarning e]\<rparr>)
         \<and> len_df (generate_random_data l g 120) = 120
         \<and> columns (generate_random_data l g 120) =
             [ID_COL, DURATION_COL, EVENT_COL] @ FEATURE_COLUMNS @ [NAME_COL, TYPE_COL]
         \<and> (\<forall>i < 120. full_row (generate_random_data l g 120) i =
               Inr [(ID_COL, IntV (int i + 1)),
                  (DURATION_COL, IntV (draw_duration g i)),
                  (EVENT_COL, IntV (draw_event g i)),
                  (LOAD_COL, FloatV (rng.draw_load g i)),
                  (POWER_COL, FloatV (draw_power g i)),
                  (UTIL_COL, FloatV (draw_util g i)),
                  (''temperatura_s'', FloatV (draw_temp g i)),
                  (''viter_m_s'', FloatV (draw_wind g i)),
                  (''sviato'', IntV (draw_holiday g i)),
                  (''vik_rokiv'', IntV (draw_age g i)),
                  (NAME_COL, StrV (''Element-'' @ py_str l (IntV (int i + 1)))),
                  (TYPE_COL, StrV (infer_type_by_power (draw_power g i)))])
         \<and> (\<forall>i \<ge> 120. full_row (generate_random_data l g 120) i = Inl IndexError)"
proof -
  have "load_csv l csv = Inl e" using assms by (simp only: load_csv_Inl_iff)
  then have a: "case train_cox_model l (generate_random_data l g 120) of
            Inl e2 \<Rightarrow> run_dashboard_data l g csv = Inl e2
          | Inr m \<Rightarrow>
              run_dashboard_data l g csv =
                Inr \<lparr>ld_df = generate_random_data l g 120, ld_cph = m,
                     ld_source_label = ''random data'', ld_dialogs = [ShowWarning e]\<rparr>"
    by (simp add: run_dashboard_data_def load_or_synthesize_def Let_def
        backfill_generate_random_data split: sum.splits)
  show ?thesis
    using a len_generate_random_data [of l g 120] columns_generate_random_data [of l g 120]
      full_row_generate_random_data [of _ 120 l g]
      full_row_generate_random_data_beyond [of 120 _ l g]
    by (intro conjI allI impI) blast+
qed

theorem load_failure_falls_back_witness:
  "run_dashboard_data demo_lib demo_rng (Inl (IOError ''cox_energy_dataset.csv'')) =
       Inr \<lparr>ld_df = generate_random_data demo_lib demo_rng 120, ld_cph = demo_model,
            ld_source_label = ''random data'',
            ld_dialogs = [ShowWarning (IOError ''cox_energy_dataset.csv'')]\<rparr>
   \<and> full_row (generate_random_data demo_lib demo_rng 120) 119 =
       Inr [(ID_COL, IntV 120), (DURATION_COL, IntV 129), (EVENT_COL, IntV 1),
            (LOAD_COL, FloatV 3119), (POWER_COL, FloatV 4119), (UTIL_COL, FloatV (1 / 2)),
            (''temperatura_s'', FloatV 119), (''viter_m_s'', FloatV 14),
            (''sviato'', IntV 1), (''vik_rokiv'', IntV 22),
            (NAME_COL, StrV ''Element-120''), (TYPE_COL, StrV ''Line'')]
   \<and> full_row (generate_random_data demo_lib demo_rng 120) 120 = Inl IndexError
   \<and> ensure_columns no_covariates_df ([DURATION_COL, EVENT_COL] @ FEATURE_COLUMNS) =
       Inl (ValueError FEATURE_COLUMNS [DURATION_COL, EVENT_COL])
   \<and> run_dashboard_data demo_lib demo_rng (Inr no_covariates_df) =
       Inr \<lparr>ld_df = generate_random_data demo_lib demo_rng 120, ld_cph = demo_model,
            ld_source_label = ''random data'',
            ld_dialogs = [ShowWarning (ValueError FEATURE_COLUMNS [DURATION_COL, EVENT_COL])]\<rparr>"
proof -
  have b: "train_cox_model demo_lib (generate_random_data demo_lib demo_rng 120) = Inr demo_model"
    by (rule train_generate_random_data) (simp add: demo_lib_def)
  have c: "ensure_columns no_covariates_df ([DURATION_COL, EVENT_COL] @ FEATURE_COLUMNS) =
       Inl (ValueError FEATURE_COLUMNS [DURATION_COL, EVENT_COL])"
    by (simp add: ensure_columns_def no_covariates_df_def columns_def col_names)
  have d: "Inr no_covariates_df
        = (Inl (ValueError FEATURE_COLUMNS [DURATION_COL, EVENT_COL]) :: error + dataframe)
      \<or> (\<exists>df. (Inr no_covariates_df :: error + dataframe) = Inr df
            \<and> (ensure_columns df ([DURATION_COL, EVENT_COL] @ FEATURE_COLUMNS)
                  = Inl (ValueError FEATURE_COLUMNS [DURATION_COL, EVENT_COL])
                \<or> (ensure_columns df ([DURATION_COL, EVENT_COL] @ FEATURE_COLUMNS) = Inr ()
                    \<and> train_cox_model demo_lib df
                         = Inl (ValueError FEATURE_COLUMNS [DURATION_COL, EVENT_COL]))))"
    using c by blast
  note t1 = load_failure_falls_back [of "Inl (IOError ''cox_energy_dataset.csv'')"
        "IOError ''cox_energy_dataset.csv''" demo_lib demo_rng]
  note t2 = load_failure_falls_back [OF d, of demo_rng]
  have r1: "run_dashboard_data demo_lib demo_rng (Inl (IOError ''cox_energy_dataset.csv'')) =
       Inr \<lparr>ld_df = generate_random_data demo_lib demo_rng 120, ld_cph = demo_model,
            ld_source_label = ''random data'',
            ld_dialogs = [ShowWarning (IOError ''cox_energy_dataset.csv'')]\<rparr>"
    using t1 by (simp add: b)
  have r2: "run_dashboard_data demo_lib demo_rng (Inr no_covariates_df) =
       Inr \<lparr>ld_df = generate_random_data demo_lib demo_rng 120, ld_cph = demo_model,
            ld_source_label = ''random data'',
            ld_dialogs = [ShowWarning (ValueError FEATURE_COLUMNS [DURATION_COL, EVENT_COL])]\<rparr>"
    using t2 by (simp add: b)
  have dec: "decimal 120 = ''120''" by code_simp
  have row: "full_row (generate_random_data demo_lib demo_rng 120) 119 =
       Inr [(ID_COL, IntV 120), (DURATION_COL, IntV 129), (EVENT_COL, IntV 1),
            (LOAD_COL, FloatV 3119), (POWER_COL, FloatV 4119), (UTIL_COL, FloatV (1 / 2)),
            (''temperatura_s'', FloatV 119), (''viter_m_s'', FloatV 14),
            (''sviato'', IntV 1), (''vik_rokiv'', IntV 22),
            (NAME_COL, StrV ''Element-120''), (TYPE_COL, StrV ''Line'')]"
  proof -
    have "119 < (120 :: nat)" by simp
    with t1 have "full_row (generate_random_data demo_lib demo_rng 120) 119 =
       Inr [(ID_COL, IntV (int 119 + 1)),
            (DURATION_COL, IntV (draw_duration demo_rng 119)),
            (EVENT_COL, IntV (draw_event demo_rng 119)),
            (LOAD_COL, FloatV (rng.draw_load demo_rng 119)),
            (POWER_COL, FloatV (draw_power demo_rng 119)),
            (UTIL_COL, FloatV (draw_util demo_rng 119)),
            (''temperatura_s'', FloatV (draw_temp demo_rng 119)),
            (''viter_m_s'', FloatV (draw_wind demo_rng 119)),
            (''sviato'', IntV (draw_holiday demo_rng 119)),
            (''vik_rokiv'', IntV (draw_age demo_rng 119)),
            (NAME_COL, StrV (''Element-'' @ py_str demo_lib (IntV (int 119 + 1)))),
            (TYPE_COL, StrV (infer_type_by_power (draw_power demo_rng 119)))]"
      by blast
    then show ?thesis
      by (simp add: demo_rng_def demo_lib_def demo_str_def dec infer_type_by_power_def)
  qed
  have beyond: "full_row (generate_random_data demo_lib demo_rng 120) 120 = Inl IndexError"
    using t1 by blast
  from r1 row beyond c r2 show ?thesis by (intro conjI)
qed

section \<open>The selected index\<close>

text \<open>
  Claim C7. When the selected index is negative or not below the number of records, the
  recompute shows an error dialog with the index and returns: the session is the one
  before with that dialog added, so no view and no variable has changed.
\<close>

theorem update_dashboard_out_of_range:
  assumes "obj_var s = IntText i" and "i < 0 \<or> int (len_df (s_df s)) \<le> i"
  shows "update_dashboard l s = Inr (s\<lparr>dialogs := dialogs s @ [ShowError i]\<rparr>)"
  using assms by (auto simp: update_dashboard_def get_idx_def)

theorem update_dashboard_out_of_range_witness:
  "update_dashboard demo_lib (demo_session\<lparr>obj_var := IntText 2\<rparr>)
     = Inr (demo_session\<lparr>obj_var := IntText 2, dialogs := [ShowError 2]\<rparr>)
   \<and> update_dashboard demo_lib (demo_session\<lparr>obj_var := IntText (- 1)\<rparr>)
     = Inr (demo_session\<lparr>obj_var := IntText (- 1), dialogs := [ShowError (- 1)]\<rparr>)"
  using update_dashboard_out_of_range [of "demo_session\<lparr>obj_var := IntText 2\<rparr>" 2 demo_lib]
    update_dashboard_out_of_range [of "demo_session\<lparr>obj_var := IntText (- 1)\<rparr>" "- 1" demo_lib]
  by (simp add: demo_session_def demo_df_def len_df_def)

text \<open>No step of the recompute after the reading of the index assigns the selection.\<close>

lemma obj_var_draw_groups:
  "draw_groups l s = Inr (s', b) \<Longrightarrow> obj_var s' = obj_var s"
  by (auto simp: draw_groups_def choose_group_var_def Let_def
      split: option.splits sum.splits list.splits if_splits)

lemma obj_var_steps:
  "obj_var (update_id_var l s n) = obj_var s"
  "obj_var (draw_survival s row i) = obj_var s"
  "obj_var (draw_hr l s) = obj_var s"
  "obj_var (draw_ch s row i) = obj_var s"
  "obj_var (draw_risk s row) = obj_var s"
  "obj_var (draw_load_bar l s n) = obj_var s"
  "obj_var (draw_record_card l s row n) = obj_var s"
  "obj_var (draw_details l s n) = obj_var s"
  by (auto simp: update_id_var_def draw_survival_def draw_hr_def draw_ch_def draw_risk_def
      draw_load_bar_def draw_record_card_def draw_details_def Let_def
      split: option.splits sum.splits list.splits)

lemma obj_var_draw_report:
  "draw_report l s i = Inr s' \<Longrightarrow> obj_var s' = obj_var s"
  by (auto simp: draw_report_def Let_def split: if_splits list.splits)

lemma obj_var_update_dashboard:
  assumes "update_dashboard l s = Inr s'"
  shows "obj_var s' = obj_var (snd (get_idx s))"
proof (cases "get_idx s")
  case (Pair idx s1)
  show ?thesis
    using assms Pair
    by (auto simp: update_dashboard_def obj_var_steps
        split: if_splits sum.splits bool.splits
        dest!: obj_var_draw_groups obj_var_draw_report)
qed

theorem update_dashboard_bad_text:
  assumes "obj_var s = BadText t"
  shows "get_idx s = (0, s\<lparr>obj_var := IntText 0\<rparr>)
     \<and> update_dashboard l s = update_dashboard l (s\<lparr>obj_var := IntText 0\<rparr>)
     \<and> (\<forall>s'. update_dashboard l s = Inr s' \<longrightarrow> obj_var s' = IntText 0)"
proof (intro conjI allI impI)
  show g: "get_idx s = (0, s\<lparr>obj_var := IntText 0\<rparr>)"
    using assms by (simp add: get_idx_def)
  show "update_dashboard l s = update_dashboard l (s\<lparr>obj_var := IntText 0\<rparr>)"
    using assms by (simp add: update_dashboard_def get_idx_def)
  fix s' assume "update_dashboard l s = Inr s'"
  from obj_var_update_dashboard [OF this] g show "obj_var s' = IntText 0" by simp
qed

theorem update_dashboard_bad_text_witness:
  "get_idx (demo_session\<lparr>obj_var := BadText ''abc''\<rparr>) = (0, demo_session)
   \<and> update_dashboard demo_lib (demo_session\<lparr>obj_var := BadText ''abc''\<rparr>)
       = update_dashboard demo_lib demo_session
   \<and> \<not> isl (update_dashboard demo_lib (demo_session\<lparr>obj_var := BadText ''abc''\<rparr>))"
proof -
  have z: "demo_session\<lparr>obj_var := IntText 0\<rparr> = demo_session"
    by (simp add: demo_session_def)
  have ok: "\<not> isl (update_dashboard demo_lib demo_session)" by code_simp
  show ?thesis
    using update_dashboard_bad_text
      [of "demo_session\<lparr>obj_var := BadText ''abc''\<rparr>" "''abc''" demo_lib] ok
    by (simp add: z)
qed

section \<open>The scratch group column\<close>

text \<open>
  Claim C2, at a session of two records grouped by the holiday flag. The recompute
  assigns the group column to the session's frame, where it stays, and the detail panel,
  which prints every column of the selected row, prints it too: the panel's last line is
  the group of the record.
\<close>

theorem update_dashboard_shows_group_column:
  "(case update_dashboard demo_lib demo_session of
      Inl e \<Rightarrow> False
    | Inr s' \<Rightarrow>
        GROUP_COL \<notin> set (columns (s_df demo_session))
        \<and> columns (s_df s') = columns (s_df demo_session) @ [GROUP_COL]
        \<and> map fst (fst (details_text s')) = columns (s_df demo_session) @ [GROUP_COL]
        \<and> map_of (fst (details_text s')) GROUP_COL = Some (StrV ''0''))"
  by code_simp

section \<open>The coercion of the event column\<close>

text \<open>What \<open>traverse\<close>, \<open>assign\<close> and the selection of columns keep.\<close>

lemma traverse_Inr_map:
  "traverse f xs = Inr ys \<Longrightarrow> map f xs = map Inr ys"
  by (induction xs arbitrary: ys) (auto split: sum.splits)

lemma traverse_Inl_set:
  "traverse f xs = Inl e \<Longrightarrow> \<exists>x \<in> set xs. f x = Inl e"
  by (induction xs) (auto split: sum.splits)

lemma map_fst_assign:
  "map fst (assign cs name c) =
     (if name \<in> set (map fst cs) then map fst cs else map fst cs @ [name])"
  by (induction cs name c rule: assign.induct) auto

lemma map_of_assign:
  "map_of (assign cs name c) n = (if n = name then Some c else map_of cs n)"
  by (induction cs name c rule: assign.induct) auto

lemma get_column_set_column:
  "get_column (set_column df name c) n = (if n = name then Inr c else get_column df n)"
  by (simp add: get_column_def set_column_def map_of_assign)

lemma columns_set_column:
  "columns (set_column df name c) =
     (if name \<in> set (columns df) then columns df else columns df @ [name])"
  by (simp add: columns_def set_column_def map_fst_assign)

lemma get_column_Inr_columns:
  assumes "get_column df name = Inr c"
  shows "name \<in> set (columns df)"
proof -
  have "map_of (cols df) name \<noteq> None"
    using assms by (simp add: get_column_def split: option.splits)
  then show ?thesis by (simp add: columns_def map_of_eq_None_iff)
qed

lemma select_columns_Inr:
  assumes "select_columns d names = Inr fit_df"
  shows "columns fit_df = names \<and> (\<forall>n \<in> set names. get_column fit_df n = get_column d n)"
proof -
  let ?f = "\<lambda>n. case get_column d n of Inl e \<Rightarrow> Inl e | Inr c \<Rightarrow> Inr (n, c)"
  have gen: "traverse ?f ns = Inr cs \<Longrightarrow>
          map fst cs = ns \<and> (\<forall>n \<in> set ns. map_of cs n = map_of (cols d) n)" for ns cs
  proof (induction ns arbitrary: cs)
    case Nil
    then show ?case by simp
  next
    case (Cons a ns)
    from Cons.prems obtain c cs' where c: "get_column d a = Inr c"
      and cs': "traverse ?f ns = Inr cs'" and cs: "cs = (a, c) # cs'"
      by (auto split: sum.splits)
    from Cons.IH [OF cs'] c cs show ?case
      by (auto simp: get_column_def split: option.splits)
  qed
  from assms obtain cs where cs: "traverse ?f names = Inr cs" and fit: "fit_df = d\<lparr>cols := cs\<rparr>"
    by (auto simp: select_columns_def split: sum.splits)
  from gen [OF cs] fit show ?thesis by (simp add: columns_def get_column_def)
qed

text \<open>An integer that the conversion returns fits in 64 bits.\<close>

lemma py_int_range: "py_int l x = Inr i \<Longrightarrow> - (2 ^ 63) \<le> i \<and> i < 2 ^ 63"
  by (auto simp: py_int_def int64_of_def split: cell.splits option.splits if_splits)

lemma traverse_py_int_range:
  "traverse (py_int l) xs = Inr ns \<Longrightarrow> \<forall>i \<in> set ns. - (2 ^ 63) \<le> i \<and> i < 2 ^ 63"
proof (induction xs arbitrary: ns)
  case Nil
  then show ?case by simp
next
  case (Cons a xs)
  from Cons.prems obtain y ys where y: "py_int l a = Inr y"
    and ys: "traverse (py_int l) xs = Inr ys" and ns: "ns = y # ys"
    by (auto split: sum.splits)
  from py_int_range [OF y] Cons.IH [OF ys] ns show ?case by simp
qed

text \<open>
  Claim C8, as the code has it. The event column is converted exactly when its dtype is
  object: every cell goes through \<^verbatim>\<open>int\<close> into a 64-bit integer, the first cell that does
  not convert or does not fit is the error, and otherwise the column becomes an integer
  column of the converted values while the frame keeps its columns and every other column
  stays as it is. A column of any other dtype, boolean included, is passed on unchanged.
  The model is then fit on the duration, the event and the seven covariates, taken from
  that frame.
\<close>

theorem coerce_event_object_only:
  assumes "get_column df EVENT_COL = Inr c"
  shows "(col_dtype c \<noteq> Object \<longrightarrow> coerce_event l df = Inr df)
    \<and> (col_dtype c = Object \<longrightarrow>
         (case traverse (py_int l) (col_cells c) of
            Inl e \<Rightarrow> coerce_event l df = Inl e \<and> (\<exists>x \<in> set (col_cells c). py_int l x = Inl e)
          | Inr is \<Rightarrow>
              coerce_event l df =
                Inr (set_column df EVENT_COL \<lparr>col_dtype = Int64, col_cells = map IntV is\<rparr>)
              \<and> map (py_int l) (col_cells c) = map Inr is
              \<and> (\<forall>i \<in> set is. - (2 ^ 63) \<le> i \<and> i < 2 ^ 63)
              \<and> columns (set_column df EVENT_COL \<lparr>col_dtype = Int64, col_cells = map IntV is\<rparr>)
                  = columns df
              \<and> (\<forall>n. n \<noteq> EVENT_COL \<longrightarrow>
                    get_column (set_column df EVENT_COL
                                  \<lparr>col_dtype = Int64, col_cells = map IntV is\<rparr>) n
                      = get_column df n)))
    \<and> train_cox_model l df =
        (case coerce_event l df of
           Inl e \<Rightarrow> Inl e
         | Inr df' \<Rightarrow>
             (case select_columns df' ([DURATION_COL, EVENT_COL] @ FEATURE_COLUMNS) of
                Inl e \<Rightarrow> Inl e
              | Inr fit_df \<Rightarrow> cox_fit l fit_df))
    \<and> (\<forall>df' fit_df. select_columns df' ([DURATION_COL, EVENT_COL] @ FEATURE_COLUMNS) = Inr fit_df
          \<longrightarrow> columns fit_df = [DURATION_COL, EVENT_COL] @ FEATURE_COLUMNS
              \<and> (\<forall>n \<in> set ([DURATION_COL, EVENT_COL] @ FEATURE_COLUMNS).
                    get_column fit_df n = get_column df' n))"
proof -
  have a: "col_dtype c \<noteq> Object \<longrightarrow> coerce_event l df = Inr df"
    using assms by (simp add: coerce_event_def)
  have mem: "EVENT_COL \<in> set (columns df)" using assms by (rule get_column_Inr_columns)
  have b: "col_dtype c = Object \<longrightarrow>
         (case traverse (py_int l) (col_cells c) of
            Inl e \<Rightarrow> coerce_event l df = Inl e \<and> (\<exists>x \<in> set (col_cells c). py_int l x = Inl e)
          | Inr is \<Rightarrow>
              coerce_event l df =
                Inr (set_column df EVENT_COL \<lparr>col_dtype = Int64, col_cells = map IntV is\<rparr>)
              \<and> map (py_int l) (col_cells c) = map Inr is
              \<and> (\<forall>i \<in> set is. - (2 ^ 63) \<le> i \<and> i < 2 ^ 63)
              \<and> columns (set_column df EVENT_COL \<lparr>col_dtype = Int64, col_cells = map IntV is\<rparr>)
                  = columns df
              \<and> (\<forall>n. n \<noteq> EVENT_COL \<longrightarrow>
                    get_column (set_column df EVENT_COL
                                  \<lparr>col_dtype = Int64, col_cells = map IntV is\<rparr>) n
                      = get_column df n))"
  proof (cases "traverse (py_int l) (col_cells c)")
    case (Inl e)
    from traverse_Inl_set [OF Inl] show ?thesis
      using assms Inl by (simp add: coerce_event_def)
  next
    case (Inr ns)
    from traverse_Inr_map [OF Inr] traverse_py_int_range [OF Inr] show ?thesis
      using assms Inr mem
      by (simp add: coerce_event_def columns_set_column get_column_set_column)
  qed
  have c: "train_cox_model l df =
        (case coerce_event l df of
           Inl e \<Rightarrow> Inl e
         | Inr df' \<Rightarrow>
             (case select_columns df' ([DURATION_COL, EVENT_COL] @ FEATURE_COLUMNS) of
                Inl e \<Rightarrow> Inl e
              | Inr fit_df \<Rightarrow> cox_fit l fit_df))"
    by (simp add: train_cox_model_def)
  have d: "\<forall>df' fit_df. select_columns df' ([DURATION_COL, EVENT_COL] @ FEATURE_COLUMNS) = Inr fit_df
          \<longrightarrow> columns fit_df = [DURATION_COL, EVENT_COL] @ FEATURE_COLUMNS
              \<and> (\<forall>n \<in> set ([DURATION_COL, EVENT_COL] @ FEATURE_COLUMNS).
                    get_column fit_df n = get_column df' n)"
    using select_columns_Inr by blast
  from a b c d show ?thesis by (intro conjI)
qed

theorem coerce_event_object_only_witness:
  "get_column object_event_df EVENT_COL
     = Inr \<lparr>col_dtype = Object, col_cells = [StrV ''1'', StrV ''0'', StrV ''1'', StrV ''0'']\<rparr>
   \<and> coerce_event demo_lib object_event_df =
       Inr (set_column object_event_df EVENT_COL
              \<lparr>col_dtype = Int64, col_cells = [IntV 1, IntV 0, IntV 1, IntV 0]\<rparr>)
   \<and> py_int demo_lib (IntV (2 ^ 63)) = Inl OverflowError"
proof -
  have g: "get_column object_event_df EVENT_COL
     = Inr \<lparr>col_dtype = Object, col_cells = [StrV ''1'', StrV ''0'', StrV ''1'', StrV ''0'']\<rparr>"
    by (simp add: get_column_def object_event_df_def four_records_def
        DURATION_COL_def EVENT_COL_def)
  have t: "traverse (py_int demo_lib) [StrV ''1'', StrV ''0'', StrV ''1'', StrV ''0'']
      = Inr [1, 0, 1, 0]"
    by (simp add: py_int_def demo_lib_def int64_of_def)
  have o: "py_int demo_lib (IntV (2 ^ 63)) = Inl OverflowError"
    by (simp add: py_int_def int64_of_def)
  show ?thesis
    using coerce_event_object_only [OF g, of demo_lib] g o
    by (simp add: t del: traverse.simps)
qed

text \<open>
  The claim as stated fails on a frame that has every required column and an event
  column of boolean dtype: the column is a boolean representation of the event, it is
  not turned into integers, and the fit is reached with it.
\<close>

theorem coerce_event_keeps_boolean:
  "ensure_columns bool_event_df ([DURATION_COL, EVENT_COL] @ FEATURE_COLUMNS) = Inr ()
   \<and> get_column bool_event_df EVENT_COL
     = Inr \<lparr>col_dtype = Boolean,
            col_cells = [BoolV True, BoolV False, BoolV True, BoolV False]\<rparr>
   \<and> coerce_event demo_lib bool_event_df = Inr bool_event_df
   \<and> \<not> isl (train_cox_model demo_lib bool_event_df)"
  by code_simp

section \<open>The grouped survival view\<close>

text \<open>The loop over the sorted labels fits one curve per label, on the rows that carry it.\<close>

lemma mask_count_pos:
  "val \<in> set labels \<Longrightarrow> filter (\<lambda>b. b) (map (\<lambda>g. g = val) labels) \<noteq> []"
  by (auto simp: filter_empty_conv)

lemma mask_select:
  "map snd (filter fst (zip (map (\<lambda>g. g = val) labels) xs))
     = map snd (filter (\<lambda>p. fst p = val) (zip labels xs))"
proof (induction labels arbitrary: xs)
  case Nil
  show ?case by simp
next
  case (Cons a labels)
  show ?case by (cases xs) (simp_all add: Cons.IH)
qed

lemma concat_map_single:
  "(\<And>x. x \<in> set xs \<Longrightarrow> f x = [g x]) \<Longrightarrow> concat (map f xs) = map g xs"
  by (induction xs) auto

lemma km_groups_alt:
  "km_groups labels durations events =
     map (\<lambda>val. (val, map snd (filter (\<lambda>p. fst p = val) (zip labels (zip durations events)))))
       (sort (remdups labels))"
  unfolding km_groups_def
proof (rule concat_map_single)
  fix x assume "x \<in> set (sort (remdups labels))"
  then have "x \<in> set labels" by simp
  then show "(let gmask = map (\<lambda>g. g = x) labels
              in if length (filter (\<lambda>b. b) gmask) = 0 then []
                 else [(x, map snd (filter fst (zip gmask (zip durations events))))])
            = [(x, map snd (filter (\<lambda>p. fst p = x) (zip labels (zip durations events))))]"
    using mask_count_pos [of x labels] by (simp add: Let_def mask_select)
qed

lemma group_nonempty:
  assumes "val \<in> set labels" "length xs = length labels"
  shows "filter (\<lambda>p. fst p = val) (zip labels xs) \<noteq> []"
proof -
  from assms obtain i where i: "i < length labels" "labels ! i = val"
    by (auto simp: in_set_conv_nth)
  then have "(labels ! i, xs ! i) \<in> set (zip labels xs)"
    using assms by (auto simp: set_zip)
  then show ?thesis using i unfolding filter_empty_conv by force
qed

lemma draw_groups_present:
  assumes c: "get_column (s_df s) (group_var s) = Inr c"
    and d: "get_column (s_df s) DURATION_COL = Inr d"
    and ev: "get_column (s_df s) EVENT_COL = Inr ev"
  shows "draw_groups l s =
     (case group_labels l c of
        Inl e \<Rightarrow> Inl e
      | Inr labels \<Rightarrow>
          Inr (s\<lparr>s_df := set_column (s_df s) GROUP_COL (group_column c labels),
                 groups_view := Drawn (group_var s, km_groups labels (col_cells d) (col_cells ev))\<rparr>,
               True))"
proof -
  have ch: "choose_group_var s = Some (group_var s, s)"
    using get_column_Inr_columns [OF c] by (simp add: choose_group_var_def)
  have ne: "DURATION_COL \<noteq> GROUP_COL" "EVENT_COL \<noteq> GROUP_COL"
    by (simp_all add: DURATION_COL_def EVENT_COL_def GROUP_COL_def)
  show ?thesis
  proof (cases "group_labels l c")
    case (Inl e)
    then show ?thesis using c by (simp add: draw_groups_def ch)
  next
    case (Inr labels)
    have nil: "km_groups [] (col_cells d) (col_cells ev) = []" by (simp add: km_groups_def)
    show ?thesis
      using c d ev Inr ne
      by (simp add: draw_groups_def ch Let_def get_column_set_column nil)
  qed
qed

text \<open>
  The quantile cut: a repeated edge leaves fewer than four edges, which three labels do
  not fit; with four different edges every value of the column lies in one of the three
  buckets.
\<close>

lemma length_unique: "length (unique xs) = card (set xs)"
  by (simp add: unique_def length_remdups_card_conv)

lemma unique_shorter:
  assumes "\<not> distinct xs"
  shows "length (unique xs) < length xs"
proof -
  have "card (set xs) \<noteq> length xs" using assms card_distinct by blast
  moreover have "card (set xs) \<le> length xs" by (rule card_length)
  ultimately have "card (set xs) < length xs" by linarith
  then show ?thesis by (simp add: length_unique)
qed

lemma bucket_id_in_range:
  assumes "v \<in> set x"
  shows "1 \<le> bucket_id (quantile_edges l x) v \<and> bucket_id (quantile_edges l x) v \<le> 3"
proof -
  have lo: "Min (set x) \<le> v" and hi: "v \<le> Max (set x)" using assms by simp_all
  show ?thesis
  proof (cases "v = Min (set x)")
    case True
    then show ?thesis by (simp add: bucket_id_def quantile_edges_def)
  next
    case False
    with lo have "Min (set x) < v" by simp
    with hi False show ?thesis by (simp add: bucket_id_def quantile_edges_def)
  qed
qed

lemma pd_qcut_duplicate_edge:
  assumes "\<not> distinct (quantile_edges l x)"
  shows "pd_qcut l x GROUP_LABELS = Inl LabelsError"
proof -
  have len: "length (quantile_edges l x) = 4" by (simp add: quantile_edges_def)
  from unique_shorter [OF assms] len
  have "length (unique (quantile_edges l x)) < 4" by simp
  then show ?thesis
    using len by (auto simp: pd_qcut_def Let_def GROUP_LABELS_def)
qed

lemma pd_qcut_distinct_edges:
  assumes "distinct (quantile_edges l x)"
  shows "pd_qcut l x GROUP_LABELS =
     Inr (map (\<lambda>v. GROUP_LABELS ! (bucket_id (quantile_edges l x) v - 1)) x)"
proof -
  have "length (unique (quantile_edges l x)) = length (quantile_edges l x)"
    using assms by (simp add: length_unique distinct_card)
  then show ?thesis
    by (simp add: pd_qcut_def Let_def GROUP_LABELS_def quantile_edges_def)
qed

lemma frame_steps:
  "s_df (update_id_var l s n) = s_df s" "group_var (update_id_var l s n) = group_var s"
  "groupable_vars (update_id_var l s n) = groupable_vars s"
  "s_df (draw_survival s row i) = s_df s" "group_var (draw_survival s row i) = group_var s"
  "groupable_vars (draw_survival s row i) = groupable_vars s"
  "s_df (draw_hr l s) = s_df s" "group_var (draw_hr l s) = group_var s"
  "groupable_vars (draw_hr l s) = groupable_vars s"
  "s_df (draw_ch s row i) = s_df s" "group_var (draw_ch s row i) = group_var s"
  "groupable_vars (draw_ch s row i) = groupable_vars s"
  by (auto simp: update_id_var_def draw_survival_def draw_hr_def draw_ch_def Let_def
      split: option.splits sum.splits)

text \<open>
  Claim C3. The claim has a numeric covariate with more than 3 distinct values cut into
  three quantile buckets, and into fewer when quantile edges coincide. The code asks
  pandas to drop repeated edges and passes three labels all the same; once an edge is
  dropped the labels are no longer one fewer than the edges and the cut raises
  \<^verbatim>\<open>ValueError\<close>. So whenever two of the four quantile edges of the chosen covariate
  coincide, no bucket is formed and no curve is fit: the grouped view raises, nothing
  catches it, and the recompute ends there.
\<close>

theorem qcut_duplicate_edge_raises:
  assumes c: "get_column (s_df s) (group_var s) = Inr c"
    and num: "is_numeric_dtype (col_dtype c)" and many: "3 < nunique c"
    and x: "traverse numeric_cell (col_cells c) = Inr x"
    and dup: "\<not> distinct (quantile_edges l x)"
    and sel: "obj_var s = IntText i" "0 \<le> i" "i < int (len_df (s_df s))"
    and row: "feature_row (s_df s) (nat i) = Inr row"
  shows "pd_qcut l x GROUP_LABELS = Inl LabelsError
    \<and> group_labels l c = Inl LabelsError
    \<and> draw_groups l s = Inl LabelsError
    \<and> update_dashboard l s = Inl LabelsError"
proof -
  have q: "pd_qcut l x GROUP_LABELS = Inl LabelsError"
    using dup by (rule pd_qcut_duplicate_edge)
  have g: "group_labels l c = Inl LabelsError"
    using num many x q by (simp add: group_labels_def Let_def)
  have dg: "draw_groups l s' = Inl LabelsError"
    if "s_df s' = s_df s" "group_var s' = group_var s" for s'
  proof -
    have c': "get_column (s_df s') (group_var s') = Inr c" using c that by simp
    have "choose_group_var s' = Some (group_var s', s')"
      using get_column_Inr_columns [OF c'] by (simp add: choose_group_var_def)
    then show ?thesis using c' g by (simp add: draw_groups_def)
  qed
  have u: "update_dashboard l s = Inl LabelsError"
    using sel row
    by (simp add: update_dashboard_def get_idx_def dg frame_steps)
  from q g dg [of s] u show ?thesis by simp
qed

theorem qcut_duplicate_edge_raises_witness:
  "get_column (s_df skewed_session) (group_var skewed_session) =
     Inr \<lparr>col_dtype = Int64,
          col_cells = [IntV 2, IntV 1, IntV 4, IntV 1, IntV 3, IntV 1, IntV 2]\<rparr>
   \<and> quantile_edges demo_lib [2, 1, 4, 1, 3, 1, 2] = [1, 1, 2, 4]
   \<and> update_dashboard demo_lib skewed_session = Inl LabelsError"
proof -
  let ?c = "\<lparr>col_dtype = Int64,
          col_cells = [IntV 2, IntV 1, IntV 4, IntV 1, IntV 3, IntV 1, IntV 2]\<rparr>"
  have c: "get_column (s_df skewed_session) (group_var skewed_session) = Inr ?c"
    by code_simp
  have num: "is_numeric_dtype (col_dtype ?c)" by (simp add: is_numeric_dtype_def)
  have many: "3 < nunique ?c" by code_simp
  have x: "traverse numeric_cell (col_cells ?c) = Inr [2, 1, 4, 1, 3, 1, 2]"
    by (simp add: numeric_cell_def)
  have e: "quantile_edges demo_lib [2, 1, 4, 1, 3, 1, 2] = [1, 1, 2, 4]" by code_simp
  have dup: "\<not> distinct (quantile_edges demo_lib [2, 1, 4, 1, 3, 1, 2])"
    by (simp add: e)
  have sel: "obj_var skewed_session = IntText 0" "(0 :: int) \<le> 0"
    "0 < int (len_df (s_df skewed_session))"
    by (simp_all add: skewed_session_def demo_session_def skewed_df_def len_df_def)
  have "\<not> isl (feature_row (s_df skewed_session) (nat 0))" by code_simp
  then obtain row where row: "feature_row (s_df skewed_session) (nat 0) = Inr row"
    by (cases "feature_row (s_df skewed_session) (nat 0)") auto
  from qcut_duplicate_edge_raises [OF c num many x dup sel row] c e
  show ?thesis by simp
qed

section \<open>The gauge on a column of numbers\<close>

text \<open>
  On a load column of numbers the gauge shows the record's load and its normalized
  percentage.
\<close>

lemma numeric_cell_py_float: "numeric_cell x = Inr r \<Longrightarrow> py_float l x = Inr r"
  by (auto simp: numeric_cell_def py_float_def split: cell.splits)

lemma load_gauge_numeric:
  assumes t: "traverse numeric_cell (col_cells c) = Inr loads" and i: "idx < length loads"
  shows "load_gauge l c idx = Inr (loads ! idx, normalized_load loads idx)"
proof -
  from traverse_Inr_map [OF t] have m: "map numeric_cell (col_cells c) = map Inr loads" .
  then have len: "length (col_cells c) = length loads" by (rule map_eq_imp_length_eq)
  have "numeric_cell (col_cells c ! idx) = Inr (loads ! idx)"
    using m i len by (metis nth_map)
  then have f: "py_float l (col_cells c ! idx) = Inr (loads ! idx)"
    by (rule numeric_cell_py_float)
  have ne: "loads \<noteq> []" using i by auto
  show ?thesis
    using i len f ne t
    by (simp add: load_gauge_def and_then_def iloc_cell_def column_min_max_def
        normalized_load_def)
qed

end
